theory Spec2Isabelle
  imports Main
begin

section \<open>Token contract compliance check (tokens contract handler)\<close>

text \<open>
  The Clarity ABI of a contract, as the handler reads it: a function has a name, an access
  level, a list of named and typed arguments and an output type.  The type language is the
  one the two tables of standard functions use.
\<close>

datatype clarity_abi_type =
    Uint128
  | Int128
  | BoolT
  | Principal
  | BufferT nat
  | StringAscii nat
  | OptionalT clarity_abi_type
  | ResponseT clarity_abi_type clarity_abi_type
  | TupleT "(string \<times> clarity_abi_type) list"

datatype access_level = Public | ReadOnly | Private

record clarity_abi_arg =
  arg_name :: string
  arg_type :: clarity_abi_type

record clarity_abi_function =
  name :: string
  access :: access_level
  args :: "clarity_abi_arg list"
  outputs :: clarity_abi_type

record clarity_abi =
  abi_functions :: "clarity_abi_function list"
  fungible_tokens :: "string list"
  non_fungible_tokens :: "string list"

definition FT_FUNCTIONS :: "clarity_abi_function list" where
  "FT_FUNCTIONS =
    [ \<lparr> name = ''transfer'', access = Public,
        args = [ \<lparr> arg_name = ''amount'', arg_type = Uint128 \<rparr>,
                 \<lparr> arg_name = ''sender'', arg_type = Principal \<rparr>,
                 \<lparr> arg_name = ''recipient'', arg_type = Principal \<rparr>,
                 \<lparr> arg_name = ''memo'', arg_type = OptionalT (BufferT 34) \<rparr> ],
        outputs = ResponseT BoolT Uint128 \<rparr>,
      \<lparr> name = ''get-name'', access = ReadOnly, args = [],
        outputs = ResponseT (StringAscii 32) Uint128 \<rparr>,
      \<lparr> name = ''get-symbol'', access = ReadOnly, args = [],
        outputs = ResponseT (StringAscii 32) Uint128 \<rparr>,
      \<lparr> name = ''get-decimals'', access = ReadOnly, args = [],
        outputs = ResponseT Uint128 Uint128 \<rparr>,
      \<lparr> name = ''get-balance-of'', access = ReadOnly,
        args = [ \<lparr> arg_name = ''address'', arg_type = Principal \<rparr> ],
        outputs = ResponseT Uint128 Uint128 \<rparr>,
      \<lparr> name = ''get-total-supply'', access = ReadOnly, args = [],
        outputs = ResponseT Uint128 Uint128 \<rparr>,
      \<lparr> name = ''get-token-uri'', access = ReadOnly, args = [],
        outputs = ResponseT (OptionalT (StringAscii 256)) Uint128 \<rparr> ]"

definition NFT_FUNCTIONS :: "clarity_abi_function list" where
  "NFT_FUNCTIONS =
    [ \<lparr> name = ''get-last-token-id'', access = ReadOnly, args = [],
        outputs = ResponseT Uint128 Uint128 \<rparr>,
      \<lparr> name = ''get-token-uri'', access = ReadOnly,
        args = [ \<lparr> arg_name = ''any'', arg_type = Uint128 \<rparr> ],
        outputs = ResponseT (OptionalT (StringAscii 256)) Uint128 \<rparr>,
      \<lparr> name = ''get-owner'', access = ReadOnly,
        args = [ \<lparr> arg_name = ''any'', arg_type = Uint128 \<rparr> ],
        outputs = ResponseT (OptionalT Principal) Uint128 \<rparr>,
      \<lparr> name = ''transfer'', access = Public,
        args = [ \<lparr> arg_name = ''id'', arg_type = Uint128 \<rparr>,
                 \<lparr> arg_name = ''sender'', arg_type = Principal \<rparr>,
                 \<lparr> arg_name = ''recipient'', arg_type = Principal \<rparr> ],
        outputs = ResponseT BoolT
          (TupleT [(''kind'', StringAscii 32), (''code'', Uint128)]) \<rparr> ]"

text \<open>
  \<^verbatim>\<open>Array.prototype.forEach\<close> calls the callback on every element with its index and
  returns \<^verbatim>\<open>undefined\<close>: whatever the callback returns is dropped.  The callbacks of
  this file have no effect of their own, so the call is modelled by its (unit) value.
\<close>

definition js_forEach :: "('a \<Rightarrow> nat \<Rightarrow> 'r) \<Rightarrow> 'a list \<Rightarrow> unit" where
  "js_forEach callback xs = (let results = map2 callback xs [0 ..< length xs] in ())"

text \<open>
  The callback of the inner loop of \<^verbatim>\<open>findFunction\<close>: it returns \<^verbatim>\<open>false\<close> when the
  argument differs from the standard's argument at the same index and nothing otherwise.
  (JavaScript compares the two objects by reference; the model compares their contents.
  Either way the value goes to \<open>js_forEach\<close>.)  It is only called with equal lengths, so
  the index is in range.
\<close>

definition findFunction_arg_callback ::
    "clarity_abi_function \<Rightarrow> clarity_abi_arg \<Rightarrow> nat \<Rightarrow> bool option" where
  "findFunction_arg_callback fn v index =
     (if v \<noteq> args fn ! index then Some False else None)"

definition findFunction_callback ::
    "clarity_abi_function \<Rightarrow> clarity_abi_function \<Rightarrow> bool" where
  "findFunction_callback fn standardFunction =
     (if name standardFunction = name fn
         \<and> length (args standardFunction) = length (args fn)
      then (let u = (if length (args standardFunction) > 0
                     then js_forEach (findFunction_arg_callback fn) (args standardFunction)
                     else ())
            in True)
      else False)"

definition findFunction ::
    "clarity_abi_function \<Rightarrow> clarity_abi_function list \<Rightarrow> bool" where
  "findFunction fn functionList = (find (findFunction_callback fn) functionList \<noteq> None)"

definition isCompliant :: "clarity_abi \<Rightarrow> clarity_abi_function list \<Rightarrow> bool" where
  "isCompliant contractAbi standardFunction =
     list_all (\<lambda>abiFun. findFunction abiFun (abi_functions contractAbi)) standardFunction"

text \<open>
  A contract that declares every SIP-010 function by name and arity, but whose
  \<^verbatim>\<open>transfer\<close> takes a boolean, a buffer and two unsigned integers.
\<close>

definition mistyped_ft_abi :: clarity_abi where
  "mistyped_ft_abi =
    \<lparr> abi_functions =
        (FT_FUNCTIONS
          [0 := \<lparr> name = ''transfer'', access = Public,
                  args = [ \<lparr> arg_name = ''amount'', arg_type = BoolT \<rparr>,
                           \<lparr> arg_name = ''sender'', arg_type = BufferT 1 \<rparr>,
                           \<lparr> arg_name = ''recipient'', arg_type = Uint128 \<rparr>,
                           \<lparr> arg_name = ''memo'', arg_type = Uint128 \<rparr> ],
                  outputs = ResponseT BoolT Uint128 \<rparr>]),
      fungible_tokens = [''token''],
      non_fungible_tokens = [] \<rparr>"

section \<open>JavaScript strings and truthiness\<close>

text \<open>
  The handlers work on hex strings with \<^verbatim>\<open>startsWith\<close>, \<^verbatim>\<open>slice\<close> and
  \<^verbatim>\<open>replace\<close>.  All strings involved are ASCII, so a string is a list of characters
  and an index counts characters.
\<close>

definition js_startsWith :: "string \<Rightarrow> string \<Rightarrow> bool" where
  "js_startsWith s p = (take (length p) s = p)"

text \<open>
  \<^verbatim>\<open>s.slice(start, end)\<close>: a negative index counts from the end of the string, both
  indices are clamped to the string, and a missing \<^verbatim>\<open>end\<close> is the length.
\<close>

definition js_slice :: "string \<Rightarrow> int \<Rightarrow> int option \<Rightarrow> string" where
  "js_slice s start end_opt =
     (let len = int (length s);
          from = (if start < 0 then max (len + start) 0 else min start len);
          e = (case end_opt of None \<Rightarrow> len | Some e' \<Rightarrow> e');
          to = (if e < 0 then max (len + e) 0 else min e len)
      in take (nat (to - from)) (drop (nat from) s))"

text \<open>
  \<^verbatim>\<open>s.replace(pattern, replacement)\<close> with a string pattern replaces the first
  occurrence of the pattern, wherever it is, and leaves a string without one unchanged.
\<close>

fun js_replace :: "string \<Rightarrow> string \<Rightarrow> string \<Rightarrow> string" where
  "js_replace [] pat rep = (if pat = [] then rep else [])"
| "js_replace (c # cs) pat rep =
     (if take (length pat) (c # cs) = pat then rep @ drop (length pat) (c # cs)
      else c # js_replace cs pat rep)"

text \<open>
  An optional string is falsy when it is missing or empty, an optional number when it is
  missing or zero.
\<close>

definition truthy_str :: "string option \<Rightarrow> bool" where
  "truthy_str s = (case s of None \<Rightarrow> False | Some v \<Rightarrow> v \<noteq> [])"

definition truthy_num :: "int option \<Rightarrow> bool" where
  "truthy_num n = (case n of None \<Rightarrow> False | Some v \<Rightarrow> v \<noteq> 0)"

text \<open>A call that may throw either throws or returns a value.\<close>

datatype 'a attempt = Throws | Returns 'a

section \<open>Data of the construction endpoints\<close>

type_synonym buffer = "nat list"

record rosetta_currency =
  symbol :: string
  decimals :: int

record rosetta_amount =
  amount_value :: string
  amount_currency :: rosetta_currency

record rosetta_operation =
  operation_index :: int
  operation_type :: string
  operation_account :: "string option"
  operation_amount :: "rosetta_amount option"

record rosetta_max_fee_amount =
  max_fee_value :: string
  max_fee_currency :: rosetta_currency

text \<open>
  The options object that travels from \<^verbatim>\<open>preprocess\<close> to \<^verbatim>\<open>metadata\<close>; every
  field is optional.  (\<open>tx_type\<close> is the field \<^verbatim>\<open>type\<close>.)
\<close>

record rosetta_options =
  sender_address :: "string option"
  tx_type :: "string option"
  token_transfer_recipient_address :: "string option"
  amount :: "string option"
  fee :: "string option"
  options_symbol :: "string option"
  options_decimals :: "int option"
  gas_limit :: "int option"
  gas_price :: "int option"
  suggested_fee_multiplier :: "int option"
  max_fee :: "string option"

record rosetta_public_key =
  hex_bytes :: string
  curve_type :: string

record rosetta_signature =
  signing_payload_hex_bytes :: string
  public_key :: rosetta_public_key
  signature_hex_bytes :: string

text \<open>
  A transaction of the Stacks library, as far as the handlers look into it: the spending
  condition of its authorization, which is single-signature (it has a
  \<^verbatim>\<open>signature\<close>) or multi-signature (it has \<^verbatim>\<open>fields\<close>, here \<open>auth_fields\<close>), and the rest.
\<close>

record message_signature =
  data :: "string option"

record single_sig_spending_condition =
  signer :: string
  nonce :: int
  sc_fee :: int
  signature :: message_signature

record multi_sig_spending_condition =
  ms_signer :: string
  ms_nonce :: int
  ms_fee :: int
  auth_fields :: "string list"
  signaturesRequired :: nat

datatype spending_condition =
    SingleSig single_sig_spending_condition
  | MultiSig multi_sig_spending_condition

record stacks_transaction =
  spendingCondition :: "spending_condition option"
  payload :: string

text \<open>The argument of a big-number constructor: a decimal string or a number.\<close>

datatype bn = BN_string string | BN_number int

record token_transfer_options =
  tt_recipient :: string
  tt_amount :: bn
  tt_fee :: bn
  tt_publicKey :: string
  tt_network :: string
  tt_nonce :: bn

record account_info =
  account_nonce :: int

subsection \<open>Requests\<close>

record preprocess_metadata =
  metadata_gas_limit :: "int option"
  metadata_gas_price :: "int option"
  metadata_suggested_fee_multiplier :: "int option"

record preprocess_body =
  pre_operations :: "rosetta_operation list"
  pre_metadata :: "preprocess_metadata option"
  pre_max_fee :: "rosetta_max_fee_amount list option"
  pre_suggested_fee_multiplier :: "int option"

record metadata_body =
  md_network :: string
  md_options :: rosetta_options
  md_public_keys :: "rosetta_public_key list option"

record hash_body =
  hash_signed_transaction :: string

record parse_body =
  parse_transaction :: string
  parse_signed :: bool

record submit_body =
  submit_signed_transaction :: string

record payloads_body =
  pl_operations :: "rosetta_operation list"
  pl_public_keys :: "rosetta_public_key list option"

record combine_body =
  unsigned_transaction :: string
  signatures :: "rosetta_signature list"

datatype request_body =
    PreprocessBody preprocess_body
  | MetadataBody metadata_body
  | HashBody hash_body
  | ParseBody parse_body
  | SubmitBody submit_body
  | PayloadsBody payloads_body
  | CombineBody combine_body

record 'b request =
  originalUrl :: string
  body :: 'b

subsection \<open>Responses and what a handler does\<close>

text \<open>The entries of the error catalogue that the handlers name.\<close>

datatype rosetta_error =
    invalidPublicKey | invalidCurveType | invalidOperation | invalidCurrencySymbol
  | invalidCurrencyDecimals | invalidFee | invalidTransactionType | invalidSender
  | invalidRecipient | invalidAmount | invalidFees | emptyPublicKey | needOnePublicKey
  | noSignatures | needOnlyOneSignature | invalidSignature | signatureNotVerified
  | transactionNotSigned | invalidTransactionString | invalidParams

record valid_schema =
  valid :: bool
  error :: "string option"

record payload_entry =
  pe_address :: string
  pe_hex_bytes :: string
  pe_signature_type :: string

datatype response_body =
    RosettaErrors rosetta_error
  | MakeRosettaError valid_schema
  | PreprocessResponse rosetta_options "string option"
  | MetadataResponse rosetta_options int "string option"
  | HashResponse string
  | ParseResponse "rosetta_operation list" "string list option"
  | SubmitResponse string
  | PayloadResponse string "payload_entry list"
  | CombineResponse string

text \<open>
  A handler is modelled by the trace of what it does, in order:
  \<^item> \<open>Json s b\<close>: the call \<^verbatim>\<open>res.status(s).json(b)\<close> (\<^verbatim>\<open>res.json(b)\<close> is status 200)
    that sends the response;
  \<^item> \<open>GetAccount a\<close>: the account lookup of the core node's RPC client;
  \<^item> \<open>GetCurrentBlock\<close>: the chain-tip lookup in the data store;
  \<^item> \<open>SendTransaction b\<close>: the broadcast of raw transaction bytes;
  \<^item> \<open>MakeUnsignedSTXTokenTransfer o\<close>: the construction of an unsigned transfer;
  \<^item> \<open>Serialize t\<close>: the call \<^verbatim>\<open>transaction.serialize()\<close>, with the transaction as it
    is at that moment;
  \<^item> \<open>ConsoleError\<close>: a caught exception that is only logged;
  \<^item> \<open>Threw\<close>: an exception that leaves the handler.
\<close>

datatype event =
    Json nat response_body
  | GetAccount string
  | GetCurrentBlock
  | SendTransaction buffer
  | MakeUnsignedSTXTokenTransfer token_transfer_options
  | Serialize stacks_transaction
  | ConsoleError
  | Threw

definition responses :: "event list \<Rightarrow> (nat \<times> response_body) list" where
  "responses t = concat (map (\<lambda>e. case e of Json s b \<Rightarrow> [(s, b)] | _ \<Rightarrow> []) t)"

definition external_calls :: "event list \<Rightarrow> event list" where
  "external_calls t =
     filter (\<lambda>e. case e of GetAccount a \<Rightarrow> True | GetCurrentBlock \<Rightarrow> True
                          | SendTransaction b \<Rightarrow> True | _ \<Rightarrow> False) t"

text \<open>
  The response object is the one of Express: it sends one response.  Once a response has
  been sent, a further \<^verbatim>\<open>res.status(s).json(b)\<close> in the same run throws (the headers
  cannot be set after they are sent) instead of sending.  \<open>res_json t s b\<close> is that call
  after the events \<open>t\<close> of the run so far; none of the handlers catches the exception,
  so it leaves the handler.  Where a handler returns right after the call, the call is the
  first of its run and the model writes the event \<open>Json s b\<close> itself.
\<close>

definition headersSent :: "event list \<Rightarrow> bool" where
  "headersSent t = list_ex (\<lambda>ev. case ev of Json s b \<Rightarrow> True | _ \<Rightarrow> False) t"

definition res_json :: "event list \<Rightarrow> nat \<Rightarrow> response_body \<Rightarrow> event list" where
  "res_json t s b = (if headersSent t then t @ [Threw] else t @ [Json s b])"

definition threw :: "event list \<Rightarrow> bool" where
  "threw t = (t \<noteq> [] \<and> last t = Threw)"

section \<open>What the construction router imports\<close>

text \<open>
  The router calls helper modules of the repository, the Stacks transactions library, the
  request validator, the core node's RPC client and the data store.  The handlers are
  modelled over any behaviour of these: they are the fields of an environment, under the
  names the router imports them by.  A function that the router calls inside
  \<^verbatim>\<open>try\<close>, that decodes its input or that goes to the network may throw.
  \<^item> \<open>publicKeyToBitcoinAddress\<close> may also return \<^verbatim>\<open>undefined\<close> (\<open>None\<close>);
  \<^item> \<open>makePresignHash\<close> returns a string or \<^verbatim>\<open>undefined\<close>;
  \<^item> \<open>getOptionsFromOperations\<close> returns the options or \<^verbatim>\<open>null\<close>;
  \<^item> \<open>getCurrentBlock\<close> returns the tip's block hash when a block is found;
  \<^item> \<open>sigHash\<close> is the \<^verbatim>\<open>sigHash\<close> of a new \<^verbatim>\<open>TransactionSigner\<close> for the transaction;
  \<^item> \<open>makeSigHashPreSign\<close> is applied with the standard authorization type;
  \<^item> \<open>toString_hex\<close> is \<^verbatim>\<open>Buffer.toString('hex')\<close>;
  \<^item> \<open>RosettaConstants_symbol\<close> and \<open>RosettaConstants_decimals\<close> are the two constants
    of the native currency.
\<close>

record env =
  rosettaValidateRequest :: "string \<Rightarrow> request_body \<Rightarrow> valid_schema"
  has0xPrefix :: "string \<Rightarrow> bool"
  hexToBuffer :: "string \<Rightarrow> buffer attempt"
  isValidC32Address :: "string \<Rightarrow> bool"
  RosettaConstants_symbol :: string
  RosettaConstants_decimals :: int
  isSymbolSupported :: "rosetta_operation list \<Rightarrow> bool"
  isDecimalsSupported :: "rosetta_operation list \<Rightarrow> bool"
  getOptionsFromOperations :: "rosetta_operation list \<Rightarrow> rosetta_options option"
  publicKeyToBitcoinAddress :: "string \<Rightarrow> string \<Rightarrow> string option attempt"
  bitcoinAddressToSTXAddress :: "string \<Rightarrow> string attempt"
  rawTxToStacksTransaction :: "string \<Rightarrow> stacks_transaction attempt"
  rawTxToBaseTx :: "string \<Rightarrow> string attempt"
  getOperations :: "string \<Rightarrow> rosetta_operation list attempt"
  getSigners :: "stacks_transaction \<Rightarrow> string list attempt"
  isSignedTransaction :: "stacks_transaction \<Rightarrow> bool"
  GetStacksTestnetNetwork :: string
  makePresignHash :: "stacks_transaction \<Rightarrow> string option"
  verifySignature :: "string \<Rightarrow> string \<Rightarrow> message_signature \<Rightarrow> bool"
  createMessageSignature :: "string \<Rightarrow> message_signature attempt"
  emptyMessageSignature :: message_signature
  makeSigHashPreSign :: "string \<Rightarrow> bn \<Rightarrow> bn \<Rightarrow> string"
  deserializeTransaction :: "buffer \<Rightarrow> stacks_transaction attempt"
  makeUnsignedSTXTokenTransfer :: "token_transfer_options \<Rightarrow> stacks_transaction attempt"
  sigHash :: "stacks_transaction \<Rightarrow> string"
  txid :: "stacks_transaction \<Rightarrow> string"
  serialize :: "stacks_transaction \<Rightarrow> buffer"
  toString_hex :: "buffer \<Rightarrow> string"
  getAccount :: "string \<Rightarrow> account_info attempt"
  getCurrentBlock :: "string option attempt"
  sendTransaction :: "buffer \<Rightarrow> string attempt"

section \<open>The construction endpoints\<close>

text \<open>
  The hash, parse, submit and combine handlers prepend \<^verbatim>\<open>0x\<close> to a transaction
  string for which \<open>has0xPrefix\<close> is false.
\<close>

definition with0xPrefix :: "env \<Rightarrow> string \<Rightarrow> string" where
  "with0xPrefix e s = (if \<not> has0xPrefix e s then ''0x'' @ s else s)"

subsection \<open>preprocess\<close>

text \<open>
  The overrides of the \<^verbatim>\<open>if (req.body.metadata)\<close> block: the first two assignments
  read the metadata object, the third reads the request body.
\<close>

definition preprocess_overrides :: "preprocess_body \<Rightarrow> rosetta_options \<Rightarrow> rosetta_options" where
  "preprocess_overrides b options =
     (case pre_metadata b of
        None \<Rightarrow> options
      | Some m \<Rightarrow>
          (let o1 = (if truthy_num (metadata_gas_limit m)
                     then options\<lparr>gas_limit := metadata_gas_limit m\<rparr> else options);
               o2 = (if truthy_num (metadata_gas_price m)
                     then o1\<lparr>gas_price := metadata_gas_price m\<rparr> else o1);
               o3 = (if truthy_num (pre_suggested_fee_multiplier b)
                     then o2\<lparr>suggested_fee_multiplier := pre_suggested_fee_multiplier b\<rparr>
                     else o2)
           in o3))"

definition preprocess_response :: "rosetta_options \<Rightarrow> event list" where
  "preprocess_response options = [Json 200 (PreprocessResponse options (sender_address options))]"

definition preprocess :: "env \<Rightarrow> preprocess_body request \<Rightarrow> event list" where
  "preprocess e req =
     (let v = rosettaValidateRequest e (originalUrl req) (PreprocessBody (body req)) in
      if \<not> valid v then [Json 400 (MakeRosettaError v)]
      else
        let operations = pre_operations (body req) in
        if length operations \<noteq> 3 then [Json 400 (RosettaErrors invalidOperation)]
        else if \<not> isSymbolSupported e operations
          then [Json 400 (RosettaErrors invalidCurrencySymbol)]
        else if \<not> isDecimalsSupported e operations
          then [Json 400 (RosettaErrors invalidCurrencyDecimals)]
        else
          (case getOptionsFromOperations e operations of
             None \<Rightarrow> [Json 400 (RosettaErrors invalidOperation)]
           | Some options0 \<Rightarrow>
               (let options = preprocess_overrides (body req) options0 in
                case pre_max_fee (body req) of
                  None \<Rightarrow> preprocess_response options
                | Some [] \<Rightarrow> [Threw]
                | Some (mf # rest) \<Rightarrow>
                    if symbol (max_fee_currency mf) = RosettaConstants_symbol e
                       \<and> decimals (max_fee_currency mf) = RosettaConstants_decimals e
                    then preprocess_response (options\<lparr>max_fee := Some (max_fee_value mf)\<rparr>)
                    else [Json 400 (RosettaErrors invalidFee)])))"

subsection \<open>metadata\<close>

text \<open>
  The hex bytes of a public key as \<^verbatim>\<open>metadata\<close> passes them on: a prefixed key
  has the first \<^verbatim>\<open>0x\<close> in it removed.
\<close>

definition stripped_hex_bytes :: "env \<Rightarrow> rosetta_public_key \<Rightarrow> string" where
  "stripped_hex_bytes e publicKey =
     (if has0xPrefix e (hex_bytes publicKey) then js_replace (hex_bytes publicKey) ''0x'' []
      else hex_bytes publicKey)"

text \<open>
  The check of a supplied public key: \<open>None\<close> when it passes, the error response
  otherwise.  Only the first key is looked at.
\<close>

definition metadata_public_key_check :: "env \<Rightarrow> metadata_body \<Rightarrow> event list option" where
  "metadata_public_key_check e b =
     (case md_public_keys b of
        None \<Rightarrow> None
      | Some [] \<Rightarrow> None
      | Some (publicKey # rest) \<Rightarrow>
          (let hex = stripped_hex_bytes e publicKey
           in case publicKeyToBitcoinAddress e hex (md_network b) of
                Throws \<Rightarrow> Some [Json 400 (RosettaErrors invalidPublicKey)]
              | Returns None \<Rightarrow> Some [Json 400 (RosettaErrors invalidPublicKey)]
              | Returns (Some btcAddress) \<Rightarrow>
                  (case bitcoinAddressToSTXAddress e btcAddress of
                     Throws \<Rightarrow> Some [Json 400 (RosettaErrors invalidPublicKey)]
                   | Returns stxAddress \<Rightarrow>
                       if Some stxAddress \<noteq> sender_address (md_options b)
                       then Some [Json 400 (RosettaErrors invalidPublicKey)]
                       else None)))"

text \<open>The two lookups and the response, once every check has passed.\<close>

definition metadata_lookup :: "env \<Rightarrow> metadata_body \<Rightarrow> string \<Rightarrow> event list" where
  "metadata_lookup e b recipientAddress =
     GetAccount recipientAddress #
     (case getAccount e recipientAddress of
        Throws \<Rightarrow> [Threw]
      | Returns accountInfo \<Rightarrow>
          GetCurrentBlock #
          (case getCurrentBlock e of
             Throws \<Rightarrow> [Threw]
           | Returns recentBlockHash \<Rightarrow>
               [Json 200 (MetadataResponse (md_options b) (account_nonce accountInfo)
                            recentBlockHash)]))"

definition metadata :: "env \<Rightarrow> metadata_body request \<Rightarrow> event list" where
  "metadata e req =
     (let v = rosettaValidateRequest e (originalUrl req) (MetadataBody (body req)) in
      if \<not> valid v then [Json 400 (MakeRosettaError v)]
      else
        let options = md_options (body req) in
        if tx_type options \<noteq> Some ''token_transfer''
          then [Json 400 (RosettaErrors invalidTransactionType)]
        else if (case sender_address options of
                   None \<Rightarrow> False
                 | Some sender \<Rightarrow> sender \<noteq> [] \<and> \<not> isValidC32Address e sender)
          then [Json 400 (RosettaErrors invalidSender)]
        else if options_symbol options \<noteq> Some (RosettaConstants_symbol e)
          then [Json 400 (RosettaErrors invalidCurrencySymbol)]
        else if options_decimals options \<noteq> Some (RosettaConstants_decimals e)
          then [Json 400 (RosettaErrors invalidCurrencyDecimals)]
        else
          (case token_transfer_recipient_address options of
             None \<Rightarrow> [Json 400 (RosettaErrors invalidRecipient)]
           | Some recipientAddress \<Rightarrow>
               if \<not> isValidC32Address e recipientAddress
               then [Json 400 (RosettaErrors invalidRecipient)]
               else (case metadata_public_key_check e (body req) of
                       Some failure \<Rightarrow> failure
                     | None \<Rightarrow> metadata_lookup e (body req) recipientAddress)))"

subsection \<open>hash\<close>

definition hash :: "env \<Rightarrow> hash_body request \<Rightarrow> event list" where
  "hash e req =
     (let v = rosettaValidateRequest e (originalUrl req) (HashBody (body req)) in
      if \<not> valid v then [Json 400 (MakeRosettaError v)]
      else
        let signed_transaction = with0xPrefix e (hash_signed_transaction (body req)) in
        case hexToBuffer e signed_transaction of
          Throws \<Rightarrow> [Json 400 (RosettaErrors invalidTransactionString)]
        | Returns buffer \<Rightarrow>
            (case deserializeTransaction e buffer of
               Throws \<Rightarrow> [Threw]
             | Returns transaction \<Rightarrow>
                 (let h = txid e transaction;
                      ok = [Json 200 (HashResponse (''0x'' @ h))];
                      notSigned = [Json 400 (RosettaErrors transactionNotSigned)]
                  in case spendingCondition transaction of
                       None \<Rightarrow> notSigned
                     | Some (SingleSig sc) \<Rightarrow>
                         if \<not> truthy_str (data (signature sc))
                            \<or> data (emptyMessageSignature e) = data (signature sc)
                         then notSigned else ok
                     | Some (MultiSig sc) \<Rightarrow>
                         if length (auth_fields sc) = 0 then notSigned else ok)))"

subsection \<open>parse\<close>

definition parse :: "env \<Rightarrow> parse_body request \<Rightarrow> event list" where
  "parse e req =
     (let v = rosettaValidateRequest e (originalUrl req) (ParseBody (body req)) in
      if \<not> valid v then [Json 400 (MakeRosettaError v)]
      else
        let inputTx = with0xPrefix e (parse_transaction (body req));
            signed = parse_signed (body req)
        in case rawTxToStacksTransaction e inputTx of
             Throws \<Rightarrow> [Threw]
           | Returns transaction \<Rightarrow>
               (let checkSigned = isSignedTransaction e transaction in
                if signed \<noteq> checkSigned then [Json 400 (RosettaErrors invalidParams)]
                else
                  (case rawTxToBaseTx e inputTx of
                     Throws \<Rightarrow> [ConsoleError]
                   | Returns baseTx \<Rightarrow>
                       (case getOperations e baseTx of
                          Throws \<Rightarrow> [ConsoleError]
                        | Returns operations \<Rightarrow>
                            if signed
                            then (case getSigners e transaction of
                                    Throws \<Rightarrow> [ConsoleError]
                                  | Returns signers \<Rightarrow>
                                      [Json 200 (ParseResponse operations (Some signers))])
                            else [Json 200 (ParseResponse operations None)]))))"

subsection \<open>submit\<close>

definition submit :: "env \<Rightarrow> submit_body request \<Rightarrow> event list" where
  "submit e req =
     (let v = rosettaValidateRequest e (originalUrl req) (SubmitBody (body req)) in
      if \<not> valid v then [Json 400 (MakeRosettaError v)]
      else
        let transaction = with0xPrefix e (submit_signed_transaction (body req)) in
        case hexToBuffer e transaction of
          Throws \<Rightarrow> [Json 400 (RosettaErrors invalidTransactionString)]
        | Returns buffer \<Rightarrow>
            SendTransaction buffer #
            (case sendTransaction e buffer of
               Throws \<Rightarrow> [Json 400 (RosettaErrors invalidTransactionString)]
             | Returns txId \<Rightarrow> [Json 200 (SubmitResponse txId)]))"

subsection \<open>payloads\<close>

definition payloads_nonce :: "account_info \<Rightarrow> bn" where
  "payloads_nonce accountInfo =
     (if account_nonce accountInfo \<noteq> 0 then BN_number (account_nonce accountInfo)
      else BN_number 0)"

text \<open>The construction of the unsigned transfer and the response, for a single key.\<close>

definition payloads_build ::
    "env \<Rightarrow> string \<Rightarrow> string \<Rightarrow> string \<Rightarrow> string \<Rightarrow> rosetta_public_key
       \<Rightarrow> account_info \<Rightarrow> event list" where
  "payloads_build e amount' fees recipientAddress senderAddress publicKey accountInfo =
     (let tokenTransferOptions =
            \<lparr> tt_recipient = recipientAddress, tt_amount = BN_string amount',
              tt_fee = BN_string fees, tt_publicKey = hex_bytes publicKey,
              tt_network = GetStacksTestnetNetwork e,
              tt_nonce = payloads_nonce accountInfo \<rparr>
      in MakeUnsignedSTXTokenTransfer tokenTransferOptions #
         (case makeUnsignedSTXTokenTransfer e tokenTransferOptions of
            Throws \<Rightarrow> [Threw]
          | Returns transaction \<Rightarrow>
              (let unsignedTransaction = serialize e transaction;
                   prehash = makeSigHashPreSign e (sigHash e transaction) (BN_string fees)
                               (payloads_nonce accountInfo)
               in [Serialize transaction,
                   Json 200 (PayloadResponse (''0x'' @ toString_hex e unsignedTransaction)
                     [\<lparr> pe_address = senderAddress, pe_hex_bytes = prehash,
                        pe_signature_type = ''ecdsa_recovery'' \<rparr>])])))"

text \<open>
  The handler after the checks of amount, fee, public keys, recipient and sender: the
  account lookup, then the checks of the number of keys and of the curve.
\<close>

definition payloads_checked ::
    "env \<Rightarrow> string \<Rightarrow> string \<Rightarrow> string \<Rightarrow> string \<Rightarrow> rosetta_public_key list
       \<Rightarrow> event list" where
  "payloads_checked e amount' fees recipientAddress senderAddress publicKeys =
     GetAccount senderAddress #
     (case getAccount e senderAddress of
        Throws \<Rightarrow> [Threw]
      | Returns accountInfo \<Rightarrow>
          (case publicKeys of
             [publicKey] \<Rightarrow>
               if curve_type publicKey \<noteq> ''secp256k1''
               then [Json 400 (RosettaErrors invalidCurveType)]
               else payloads_build e amount' fees recipientAddress senderAddress publicKey
                      accountInfo
           | _ \<Rightarrow> [Json 400 (RosettaErrors needOnePublicKey)]))"

definition payloads :: "env \<Rightarrow> payloads_body request \<Rightarrow> event list" where
  "payloads e req =
     (let v = rosettaValidateRequest e (originalUrl req) (PayloadsBody (body req)) in
      if \<not> valid v then [Json 400 (MakeRosettaError v)]
      else
        case getOptionsFromOperations e (pl_operations (body req)) of
          None \<Rightarrow> [Json 400 (RosettaErrors invalidOperation)]
        | Some options \<Rightarrow>
            (case amount options of
               None \<Rightarrow> [Json 400 (RosettaErrors invalidAmount)]
             | Some amount' \<Rightarrow>
                 if amount' = [] then [Json 400 (RosettaErrors invalidAmount)]
                 else
            (case fee options of
               None \<Rightarrow> [Json 400 (RosettaErrors invalidFees)]
             | Some fees \<Rightarrow>
                 if fees = [] then [Json 400 (RosettaErrors invalidFees)]
                 else
            (case pl_public_keys (body req) of
               None \<Rightarrow> [Json 400 (RosettaErrors emptyPublicKey)]
             | Some publicKeys \<Rightarrow>
            (case token_transfer_recipient_address options of
               None \<Rightarrow> [Json 400 (RosettaErrors invalidRecipient)]
             | Some recipientAddress \<Rightarrow>
                 if recipientAddress = [] then [Json 400 (RosettaErrors invalidRecipient)]
                 else
            (case sender_address options of
               None \<Rightarrow> [Json 400 (RosettaErrors invalidSender)]
             | Some senderAddress \<Rightarrow>
                 if senderAddress = [] then [Json 400 (RosettaErrors invalidSender)]
                 else payloads_checked e amount' fees recipientAddress senderAddress
                        publicKeys))))))"

subsection \<open>combine\<close>

text \<open>
  The string handed to \<^verbatim>\<open>createMessageSignature\<close>: the signature's hex bytes, with
  the two characters after index 128 moved to the front when they are \<^verbatim>\<open>01\<close> and
  the string does not already start with \<^verbatim>\<open>01\<close>.
\<close>

definition combine_hash :: "string \<Rightarrow> string" where
  "combine_hash sig_hex =
     (let h = sig_hex in
      if \<not> js_startsWith h ''01'' \<and> js_slice h 128 None = ''01''
      then js_slice sig_hex 128 None @ js_slice sig_hex 0 (Some (- 2))
      else h)"

text \<open>
  The assignment to the signature slot: only a single-signature spending condition is
  written to; anything else leaves the transaction as it is.
\<close>

definition combine_set_signature ::
    "stacks_transaction \<Rightarrow> message_signature \<Rightarrow> stacks_transaction" where
  "combine_set_signature transaction newSignature =
     (case spendingCondition transaction of
        Some (SingleSig sc) \<Rightarrow>
          transaction\<lparr>spendingCondition := Some (SingleSig (sc\<lparr>signature := newSignature\<rparr>))\<rparr>
      | _ \<Rightarrow> transaction)"

text \<open>
  The handler from the curve check on, for the first signature, after the events \<open>t\<close>
  of the run so far.  The branch of a failed verification responds and has no
  \<^verbatim>\<open>return\<close>: unless that call threw, the handler goes on to write the signature,
  serialize the transaction and respond with it.
\<close>

definition combine_first_signature ::
    "env \<Rightarrow> stacks_transaction \<Rightarrow> rosetta_signature \<Rightarrow> event list \<Rightarrow> event list" where
  "combine_first_signature e transaction sig0 t =
     (if curve_type (public_key sig0) \<noteq> ''secp256k1''
        then res_json t 400 (RosettaErrors invalidCurveType)
      else if \<not> truthy_str (makePresignHash e transaction)
        then res_json t 400 (RosettaErrors invalidTransactionString)
      else
        (case createMessageSignature e (combine_hash (signature_hex_bytes sig0)) of
           Throws \<Rightarrow> res_json t 400 (RosettaErrors invalidSignature)
         | Returns newSignature \<Rightarrow>
             (let payload_hex =
                    (if has0xPrefix e (hex_bytes (public_key sig0))
                     then js_replace (signing_payload_hex_bytes sig0) ''0x'' []
                     else signing_payload_hex_bytes sig0);
                  t1 = (if \<not> verifySignature e payload_hex (hex_bytes (public_key sig0))
                              newSignature
                        then res_json t 400 (RosettaErrors signatureNotVerified) else t)
              in if threw t1 then t1
                 else
                   (let transaction' = combine_set_signature transaction newSignature;
                        serializedTx = toString_hex e (serialize e transaction')
                    in res_json (t1 @ [Serialize transaction']) 200
                         (CombineResponse (''0x'' @ serializedTx))))))"

text \<open>
  The branch of a signature count other than one responds and has no \<^verbatim>\<open>return\<close>
  either: the handler goes on with the first signature, with the response already sent.
\<close>

definition combine :: "env \<Rightarrow> combine_body request \<Rightarrow> event list" where
  "combine e req =
     (let v = rosettaValidateRequest e (originalUrl req) (CombineBody (body req)) in
      if \<not> valid v then [Json 400 (MakeRosettaError v)]
      else
        let sigs = signatures (body req);
            unsigned_tx = with0xPrefix e (unsigned_transaction (body req))
        in case sigs of
             [] \<Rightarrow> [Json 400 (RosettaErrors noSignatures)]
           | sig0 # rest \<Rightarrow>
               (case hexToBuffer e unsigned_tx of
                  Throws \<Rightarrow> [Json 400 (RosettaErrors invalidTransactionString)]
                | Returns unsigned_transaction_buffer \<Rightarrow>
                    (case deserializeTransaction e unsigned_transaction_buffer of
                       Throws \<Rightarrow> [Json 400 (RosettaErrors invalidTransactionString)]
                     | Returns transaction \<Rightarrow>
                         combine_first_signature e transaction sig0
                           (if length sigs \<noteq> 1
                            then res_json [] 400 (RosettaErrors needOnlyOneSignature)
                            else []))))"

subsection \<open>The address derived from a public key\<close>

text \<open>
  The address that \<^verbatim>\<open>metadata\<close> derives from the hex bytes of a public key: the
  Bitcoin address of the key on the request's network, mapped to a Stacks address.  There
  is none when either step throws or the first returns \<^verbatim>\<open>undefined\<close>.
\<close>

definition derived_address :: "env \<Rightarrow> string \<Rightarrow> string \<Rightarrow> string option" where
  "derived_address e hex network =
     (case publicKeyToBitcoinAddress e hex network of
        Returns (Some btcAddress) \<Rightarrow>
          (case bitcoinAddressToSTXAddress e btcAddress of
             Returns stxAddress \<Rightarrow> Some stxAddress
           | Throws \<Rightarrow> None)
      | _ \<Rightarrow> None)"

section \<open>A concrete environment\<close>

text \<open>
  A small environment on which the handlers can be run, used to instantiate the theorems
  below.  Its functions are stand-ins of the right shape, not the real codecs: a
  transaction string decodes to the transaction \<open>tx\<close> given as parameter, a
  transaction is serialized as its payload followed by its signature, a signature must be
  130 characters long, and it verifies when it is \<^verbatim>\<open>01\<close> followed by 128 sevens.
\<close>

definition demo_options :: rosetta_options where
  "demo_options =
     \<lparr> sender_address = Some ''ST1SENDER'', tx_type = Some ''token_transfer'',
       token_transfer_recipient_address = Some ''ST2RECIPIENT'', amount = Some ''100'',
       fee = Some ''180'', options_symbol = Some ''STX'', options_decimals = Some 6,
       gas_limit = None, gas_price = None, suggested_fee_multiplier = None,
       max_fee = None \<rparr>"

definition demo_getOptionsFromOperations :: "rosetta_operation list \<Rightarrow> rosetta_options option" where
  "demo_getOptionsFromOperations ops =
     (if list_all (\<lambda>op. operation_type op = ''fee'' \<or> operation_type op = ''token_transfer'') ops
      then Some demo_options else None)"

definition demo_env :: "stacks_transaction \<Rightarrow> env" where
  "demo_env tx =
     \<lparr> rosettaValidateRequest = (\<lambda>url b. \<lparr> valid = True, error = None \<rparr>),
       has0xPrefix = (\<lambda>s. take 2 s = ''0x''),
       hexToBuffer = (\<lambda>s. if length s \<le> 2 then Throws else Returns [length s - 2]),
       isValidC32Address = (\<lambda>a. take 2 a = ''ST''),
       RosettaConstants_symbol = ''STX'',
       RosettaConstants_decimals = 6,
       isSymbolSupported =
         list_all (\<lambda>op. case operation_amount op of None \<Rightarrow> True
                        | Some a \<Rightarrow> symbol (amount_currency a) = ''STX''),
       isDecimalsSupported =
         list_all (\<lambda>op. case operation_amount op of None \<Rightarrow> True
                        | Some a \<Rightarrow> decimals (amount_currency a) = 6),
       getOptionsFromOperations = demo_getOptionsFromOperations,
       publicKeyToBitcoinAddress =
         (\<lambda>hex network. if hex = [] then Throws
                         else if length hex < 4 then Returns None
                         else Returns (Some (''btc'' @ drop 2 hex))),
       bitcoinAddressToSTXAddress = (\<lambda>a. Returns (''ST'' @ drop 3 a)),
       rawTxToStacksTransaction = (\<lambda>s. if length s \<le> 2 then Throws else Returns tx),
       rawTxToBaseTx = (\<lambda>s. Returns s),
       getOperations = (\<lambda>s. Returns []),
       getSigners = (\<lambda>t. Returns [''ST1SENDER'']),
       isSignedTransaction = (\<lambda>t. False),
       GetStacksTestnetNetwork = ''testnet'',
       makePresignHash = (\<lambda>t. Some (payload t)),
       verifySignature =
         (\<lambda>message publicAddress s.
            case data s of None \<Rightarrow> False
            | Some d \<Rightarrow> take 2 d = ''01'' \<and> drop 2 d = replicate 128 (CHR ''7'')),
       createMessageSignature =
         (\<lambda>h. if length h = 130 then Returns \<lparr> data = Some h \<rparr> else Throws),
       emptyMessageSignature = \<lparr> data = Some (replicate 130 (CHR ''0'')) \<rparr>,
       makeSigHashPreSign = (\<lambda>h f n. h),
       deserializeTransaction = (\<lambda>b. Returns tx),
       makeUnsignedSTXTokenTransfer = (\<lambda>opts. Returns tx),
       sigHash = payload,
       txid = payload,
       serialize =
         (\<lambda>t. map of_char
                (payload t @
                 (case spendingCondition t of
                    Some (SingleSig sc) \<Rightarrow>
                      (case data (signature sc) of None \<Rightarrow> [] | Some d \<Rightarrow> d)
                  | _ \<Rightarrow> []))),
       toString_hex = map char_of,
       getAccount = (\<lambda>a. Returns \<lparr> account_nonce = 7 \<rparr>),
       getCurrentBlock = Returns (Some ''0xb10c''),
       sendTransaction = (\<lambda>b. Returns ''0x7d'') \<rparr>"

definition demo_unsigned_tx :: stacks_transaction where
  "demo_unsigned_tx =
     \<lparr> spendingCondition =
         Some (SingleSig \<lparr> signer = ''ST1SENDER'', nonce = 7, sc_fee = 180,
                           signature = \<lparr> data = Some (replicate 130 (CHR ''0'')) \<rparr> \<rparr>),
       payload = ''c0ffee'' \<rparr>"

definition demo_signed_tx :: stacks_transaction where
  "demo_signed_tx =
     \<lparr> spendingCondition =
         Some (SingleSig \<lparr> signer = ''ST1SENDER'', nonce = 7, sc_fee = 180,
                           signature = \<lparr> data = Some (replicate 130 (CHR ''7'')) \<rparr> \<rparr>),
       payload = ''c0ffee'' \<rparr>"

definition demo_currency :: rosetta_currency where
  "demo_currency = \<lparr> symbol = ''STX'', decimals = 6 \<rparr>"

definition demo_operation :: "string \<Rightarrow> string \<Rightarrow> rosetta_operation" where
  "demo_operation ty v =
     \<lparr> operation_index = 0, operation_type = ty, operation_account = Some ''ST1SENDER'',
       operation_amount = Some \<lparr> amount_value = v, amount_currency = demo_currency \<rparr> \<rparr>"

definition demo_operations :: "rosetta_operation list" where
  "demo_operations =
     [demo_operation ''token_transfer'' ''-100'', demo_operation ''token_transfer'' ''100'',
      demo_operation ''fee'' ''-180'']"

text \<open>
  Three operations of a type that the stand-in for \<^verbatim>\<open>getOptionsFromOperations\<close> does
  not accept, a fee ceiling in another currency, and preprocess requests built from them.
\<close>

definition unsupported_operations :: "rosetta_operation list" where
  "unsupported_operations =
     [demo_operation ''coinbase'' ''-100'', demo_operation ''coinbase'' ''100'',
      demo_operation ''coinbase'' ''-180'']"

definition wrong_max_fee :: rosetta_max_fee_amount where
  "wrong_max_fee =
     \<lparr> max_fee_value = ''500'', max_fee_currency = \<lparr> symbol = ''BTC'', decimals = 8 \<rparr> \<rparr>"

definition demo_preprocess_request ::
    "rosetta_operation list \<Rightarrow> preprocess_metadata option
       \<Rightarrow> rosetta_max_fee_amount list option \<Rightarrow> preprocess_body request" where
  "demo_preprocess_request ops md mf =
     \<lparr> originalUrl = ''/rosetta/v1/construction/preprocess'',
       body = \<lparr> pre_operations = ops, pre_metadata = md, pre_max_fee = mf,
                pre_suggested_fee_multiplier = None \<rparr> \<rparr>"

text \<open>
  A preprocess request with a multiplier in the request body as well as in the metadata.
\<close>

definition demo_preprocess_request_multipliers :: "preprocess_body request" where
  "demo_preprocess_request_multipliers =
     \<lparr> originalUrl = ''/rosetta/v1/construction/preprocess'',
       body = \<lparr> pre_operations = demo_operations,
                pre_metadata =
                  Some \<lparr> metadata_gas_limit = Some 5, metadata_gas_price = None,
                         metadata_suggested_fee_multiplier = Some 2 \<rparr>,
                pre_max_fee = None,
                pre_suggested_fee_multiplier = Some 3 \<rparr> \<rparr>"

text \<open>
  A payloads request with two public keys, and the environment in which the account lookup
  fails (the core node cannot be reached).
\<close>

definition demo_payloads_request_two_keys :: "payloads_body request" where
  "demo_payloads_request_two_keys =
     \<lparr> originalUrl = ''/rosetta/v1/construction/payloads'',
       body = \<lparr> pl_operations = demo_operations,
                pl_public_keys =
                  Some [\<lparr> hex_bytes = ''021SENDER'', curve_type = ''secp256k1'' \<rparr>,
                        \<lparr> hex_bytes = ''022OTHER'', curve_type = ''secp256k1'' \<rparr>] \<rparr> \<rparr>"

definition demo_env_node_down :: "stacks_transaction \<Rightarrow> env" where
  "demo_env_node_down tx = (demo_env tx)\<lparr>getAccount := (\<lambda>a. Throws)\<rparr>"

section \<open>Properties of the compliance check\<close>

lemma findFunction_callback_iff:
  "findFunction_callback fn g \<longleftrightarrow> name g = name fn \<and> length (args g) = length (args fn)"
  by (simp add: findFunction_callback_def)

lemma findFunction_iff:
  "findFunction fn fs \<longleftrightarrow>
     (\<exists>g \<in> set fs. name g = name fn \<and> length (args g) = length (args fn))"
  by (auto simp: findFunction_def find_None_iff findFunction_callback_iff)

text \<open>
  C9.  The compliance check accepts a contract exactly when, for every required standard
  function, the contract's ABI lists a function with the same name and the same number of
  arguments; the argument types play no part, since the result of the per-argument
  comparison is dropped.  In particular the contract \<open>mistyped_ft_abi\<close>, whose
  \<^verbatim>\<open>transfer\<close> has the standard's name and arity but none of its argument types, is
  accepted as SIP-010 compliant.
\<close>

theorem isCompliant_ignores_argument_types:
  "(isCompliant contractAbi standardFunction \<longleftrightarrow>
      (\<forall>fn \<in> set standardFunction. \<exists>g \<in> set (abi_functions contractAbi).
          name g = name fn \<and> length (args g) = length (args fn)))
   \<and> isCompliant mistyped_ft_abi FT_FUNCTIONS
   \<and> (\<exists>g \<in> set (abi_functions mistyped_ft_abi). \<exists>fn \<in> set FT_FUNCTIONS.
          name g = name fn \<and> length (args g) = length (args fn)
          \<and> map arg_type (args g) \<noteq> map arg_type (args fn))"
proof (intro conjI)
  show general: "isCompliant contractAbi standardFunction \<longleftrightarrow>
      (\<forall>fn \<in> set standardFunction. \<exists>g \<in> set (abi_functions contractAbi).
          name g = name fn \<and> length (args g) = length (args fn))"
    for contractAbi standardFunction
    by (simp add: isCompliant_def list_all_iff findFunction_iff)
  show "isCompliant mistyped_ft_abi FT_FUNCTIONS"
    unfolding general by (simp add: mistyped_ft_abi_def FT_FUNCTIONS_def)
  show "\<exists>g \<in> set (abi_functions mistyped_ft_abi). \<exists>fn \<in> set FT_FUNCTIONS.
          name g = name fn \<and> length (args g) = length (args fn)
          \<and> map arg_type (args g) \<noteq> map arg_type (args fn)"
    by (simp add: mistyped_ft_abi_def FT_FUNCTIONS_def)
qed

theorem isCompliant_ignores_argument_types_witness:
  "isCompliant \<lparr> abi_functions = NFT_FUNCTIONS, fungible_tokens = [],
                 non_fungible_tokens = [''nft''] \<rparr> NFT_FUNCTIONS
   \<and> \<not> isCompliant \<lparr> abi_functions = FT_FUNCTIONS, fungible_tokens = [''token''],
                     non_fungible_tokens = [] \<rparr> NFT_FUNCTIONS"
  using isCompliant_ignores_argument_types
          [of "\<lparr> abi_functions = NFT_FUNCTIONS, fungible_tokens = [],
                 non_fungible_tokens = [''nft''] \<rparr>" NFT_FUNCTIONS]
        isCompliant_ignores_argument_types
          [of "\<lparr> abi_functions = FT_FUNCTIONS, fungible_tokens = [''token''],
                 non_fungible_tokens = [] \<rparr>" NFT_FUNCTIONS]
  by (simp add: NFT_FUNCTIONS_def FT_FUNCTIONS_def)

section \<open>Properties of the signature normalization\<close>

lemma js_slice_from: "0 \<le> n \<Longrightarrow> js_slice s n None = drop (nat n) s"
  by (auto simp: js_slice_def Let_def min_def)

lemma js_slice_drop_last2: "js_slice s 0 (Some (- 2)) = take (length s - 2) s"
  by (auto simp: js_slice_def Let_def max_def nat_diff_distrib)

lemma js_startsWith_01: "js_startsWith h ''01'' \<longleftrightarrow> take 2 h = ''01''"
  by (simp add: js_startsWith_def numeral_2_eq_2)

lemma combine_hash_eq:
  "combine_hash h =
     (if take 2 h \<noteq> ''01'' \<and> drop 128 h = ''01''
      then drop 128 h @ take (length h - 2) h else h)"
  by (simp add: combine_hash_def js_startsWith_01 js_slice_from js_slice_drop_last2 Let_def)




section \<open>Properties of the hash endpoint and of the transaction prefix\<close>

lemma with0xPrefix_idem:
  "\<not> has0xPrefix e h \<Longrightarrow> has0xPrefix e (''0x'' @ h) \<Longrightarrow>
     with0xPrefix e (''0x'' @ h) = with0xPrefix e h"
  by (simp add: with0xPrefix_def)

text \<open>
  C3.  For a hash request that passes the schema validation and whose transaction string
  decodes and deserializes: when the spending condition is absent, or is single-signature
  with a signature that is absent, empty or equal to the empty-signature sentinel, or is
  multi-signature with an empty list of authorization fields, the endpoint answers
  \<^verbatim>\<open>transactionNotSigned\<close> (status 400) and nothing else; in every other case it
  answers (status 200) with the transaction identifier \<^verbatim>\<open>0x\<close> followed by the
  transaction's txid.
\<close>

theorem hash_signedness:
  assumes v: "valid (rosettaValidateRequest e (originalUrl req) (HashBody (body req)))"
    and b: "hexToBuffer e (with0xPrefix e (hash_signed_transaction (body req))) = Returns buffer"
    and d: "deserializeTransaction e buffer = Returns transaction"
  shows "hash e req =
     (if spendingCondition transaction = None
         \<or> (\<exists>sc. spendingCondition transaction = Some (SingleSig sc)
                \<and> (data (signature sc) = None \<or> data (signature sc) = Some []
                    \<or> data (signature sc) = data (emptyMessageSignature e)))
         \<or> (\<exists>sc. spendingCondition transaction = Some (MultiSig sc) \<and> auth_fields sc = [])
      then [Json 400 (RosettaErrors transactionNotSigned)]
      else [Json 200 (HashResponse (''0x'' @ txid e transaction))])"
proof (cases "spendingCondition transaction")
  case None
  then show ?thesis using v b d by (simp add: hash_def Let_def)
next
  case (Some c)
  show ?thesis
  proof (cases c)
    case (SingleSig sc)
    then show ?thesis using v b d Some
      by (cases "data (signature sc)") (auto simp: hash_def Let_def truthy_str_def)
  next
    case (MultiSig sc)
    then show ?thesis using v b d Some
      by (simp add: hash_def Let_def)
  qed
qed

theorem hash_signedness_witness:
  "hash (demo_env demo_signed_tx)
      \<lparr> originalUrl = ''/rosetta/v1/construction/hash'',
        body = \<lparr> hash_signed_transaction = ''80800000'' \<rparr> \<rparr>
     = [Json 200 (HashResponse ''0xc0ffee'')]"
proof -
  let ?e = "demo_env demo_signed_tx"
  let ?req = "\<lparr> originalUrl = ''/rosetta/v1/construction/hash'',
                 body = \<lparr> hash_signed_transaction = ''80800000'' \<rparr> \<rparr>"
  have v: "valid (rosettaValidateRequest ?e (originalUrl ?req) (HashBody (body ?req)))"
    by (simp add: demo_env_def)
  have b: "hexToBuffer ?e (with0xPrefix ?e (hash_signed_transaction (body ?req))) = Returns [8]"
    by (simp add: demo_env_def with0xPrefix_def)
  have d: "deserializeTransaction ?e [8] = Returns demo_signed_tx"
    by (simp add: demo_env_def)
  show ?thesis
    using hash_signedness [OF v b d] by (simp add: demo_env_def demo_signed_tx_def)
qed

lemma hash_same_prefixed:
  assumes "with0xPrefix e a = with0xPrefix e b"
    and "rosettaValidateRequest e u (HashBody \<lparr> hash_signed_transaction = a \<rparr>)
         = rosettaValidateRequest e u (HashBody \<lparr> hash_signed_transaction = b \<rparr>)"
  shows "hash e \<lparr> originalUrl = u, body = \<lparr> hash_signed_transaction = a \<rparr> \<rparr>
       = hash e \<lparr> originalUrl = u, body = \<lparr> hash_signed_transaction = b \<rparr> \<rparr>"
  using assms by (simp add: hash_def Let_def)

lemma parse_same_prefixed:
  assumes "with0xPrefix e a = with0xPrefix e b"
    and "rosettaValidateRequest e u (ParseBody \<lparr> parse_transaction = a, parse_signed = sg \<rparr>)
         = rosettaValidateRequest e u (ParseBody \<lparr> parse_transaction = b, parse_signed = sg \<rparr>)"
  shows "parse e \<lparr> originalUrl = u, body = \<lparr> parse_transaction = a, parse_signed = sg \<rparr> \<rparr>
       = parse e \<lparr> originalUrl = u, body = \<lparr> parse_transaction = b, parse_signed = sg \<rparr> \<rparr>"
  using assms by (simp add: parse_def Let_def)

lemma submit_same_prefixed:
  assumes "with0xPrefix e a = with0xPrefix e b"
    and "rosettaValidateRequest e u (SubmitBody \<lparr> submit_signed_transaction = a \<rparr>)
         = rosettaValidateRequest e u (SubmitBody \<lparr> submit_signed_transaction = b \<rparr>)"
  shows "submit e \<lparr> originalUrl = u, body = \<lparr> submit_signed_transaction = a \<rparr> \<rparr>
       = submit e \<lparr> originalUrl = u, body = \<lparr> submit_signed_transaction = b \<rparr> \<rparr>"
  using assms by (simp add: submit_def Let_def)

lemma combine_same_prefixed:
  assumes "with0xPrefix e a = with0xPrefix e b"
    and "rosettaValidateRequest e u (CombineBody \<lparr> unsigned_transaction = a, signatures = sigs \<rparr>)
         = rosettaValidateRequest e u
             (CombineBody \<lparr> unsigned_transaction = b, signatures = sigs \<rparr>)"
  shows "combine e \<lparr> originalUrl = u, body = \<lparr> unsigned_transaction = a, signatures = sigs \<rparr> \<rparr>
       = combine e \<lparr> originalUrl = u, body = \<lparr> unsigned_transaction = b, signatures = sigs \<rparr> \<rparr>"
  using assms by (simp add: combine_def Let_def)

text \<open>
  C10.  The hash, parse, submit and combine endpoints do the same on a transaction string
  \<open>h\<close> without the prefix and on \<^verbatim>\<open>0x\<close> followed by \<open>h\<close>: the handler prepends
  the prefix when it is absent, before anything decodes the string.  (The schema validator
  sees the request before that; its verdict is taken to be the same for both requests.
  That \<open>has0xPrefix\<close> recognises the prefix it has just been given is the second
  assumption on the imported helper.)
\<close>

theorem prefix_insensitive:
  assumes n: "\<not> has0xPrefix e h" and p: "has0xPrefix e (''0x'' @ h)"
  shows
   "(rosettaValidateRequest e u1 (HashBody \<lparr> hash_signed_transaction = h \<rparr>)
       = rosettaValidateRequest e u1 (HashBody \<lparr> hash_signed_transaction = ''0x'' @ h \<rparr>)
     \<longrightarrow> hash e \<lparr> originalUrl = u1, body = \<lparr> hash_signed_transaction = h \<rparr> \<rparr>
         = hash e \<lparr> originalUrl = u1, body = \<lparr> hash_signed_transaction = ''0x'' @ h \<rparr> \<rparr>)
  \<and> (rosettaValidateRequest e u2 (ParseBody \<lparr> parse_transaction = h, parse_signed = sg \<rparr>)
       = rosettaValidateRequest e u2
           (ParseBody \<lparr> parse_transaction = ''0x'' @ h, parse_signed = sg \<rparr>)
     \<longrightarrow> parse e \<lparr> originalUrl = u2, body = \<lparr> parse_transaction = h, parse_signed = sg \<rparr> \<rparr>
         = parse e \<lparr> originalUrl = u2,
                     body = \<lparr> parse_transaction = ''0x'' @ h, parse_signed = sg \<rparr> \<rparr>)
  \<and> (rosettaValidateRequest e u3 (SubmitBody \<lparr> submit_signed_transaction = h \<rparr>)
       = rosettaValidateRequest e u3 (SubmitBody \<lparr> submit_signed_transaction = ''0x'' @ h \<rparr>)
     \<longrightarrow> submit e \<lparr> originalUrl = u3, body = \<lparr> submit_signed_transaction = h \<rparr> \<rparr>
         = submit e \<lparr> originalUrl = u3, body = \<lparr> submit_signed_transaction = ''0x'' @ h \<rparr> \<rparr>)
  \<and> (rosettaValidateRequest e u4 (CombineBody \<lparr> unsigned_transaction = h, signatures = sigs \<rparr>)
       = rosettaValidateRequest e u4
           (CombineBody \<lparr> unsigned_transaction = ''0x'' @ h, signatures = sigs \<rparr>)
     \<longrightarrow> combine e \<lparr> originalUrl = u4,
                       body = \<lparr> unsigned_transaction = h, signatures = sigs \<rparr> \<rparr>
         = combine e \<lparr> originalUrl = u4,
                       body = \<lparr> unsigned_transaction = ''0x'' @ h, signatures = sigs \<rparr> \<rparr>)"
proof -
  note w = with0xPrefix_idem [OF n p, symmetric]
  show ?thesis
    using hash_same_prefixed [OF w] parse_same_prefixed [OF w] submit_same_prefixed [OF w]
      combine_same_prefixed [OF w]
    by blast
qed

theorem prefix_insensitive_witness:
  "hash (demo_env demo_signed_tx)
      \<lparr> originalUrl = ''/construction/hash'', body = \<lparr> hash_signed_transaction = ''8080'' \<rparr> \<rparr>
   = hash (demo_env demo_signed_tx)
      \<lparr> originalUrl = ''/construction/hash'', body = \<lparr> hash_signed_transaction = ''0x8080'' \<rparr> \<rparr>
   \<and> submit (demo_env demo_signed_tx)
      \<lparr> originalUrl = ''/construction/submit'', body = \<lparr> submit_signed_transaction = ''8080'' \<rparr> \<rparr>
   = submit (demo_env demo_signed_tx)
      \<lparr> originalUrl = ''/construction/submit'',
        body = \<lparr> submit_signed_transaction = ''0x8080'' \<rparr> \<rparr>"
proof -
  let ?e = "demo_env demo_signed_tx"
  have n: "\<not> has0xPrefix ?e ''8080''" by (simp add: demo_env_def)
  have p: "has0xPrefix ?e (''0x'' @ ''8080'')" by (simp add: demo_env_def)
  show ?thesis
    using prefix_insensitive [OF n p, of "''/construction/hash''" _ _ "''/construction/submit''"]
    by (simp add: demo_env_def)
qed

section \<open>Properties of the metadata endpoint\<close>

lemma metadata_public_key_check_None_iff:
  "metadata_public_key_check e b = None \<longleftrightarrow>
     (case md_public_keys b of
        None \<Rightarrow> True
      | Some [] \<Rightarrow> True
      | Some (publicKey # rest) \<Rightarrow>
          (\<exists>stxAddress. derived_address e (stripped_hex_bytes e publicKey) (md_network b)
                           = Some stxAddress
                         \<and> sender_address (md_options b) = Some stxAddress))"
  by (auto simp: metadata_public_key_check_def derived_address_def Let_def
           split: option.splits list.splits attempt.splits)

lemma metadata_public_key_check_Some:
  "metadata_public_key_check e b = Some failure \<Longrightarrow>
     failure = [Json 400 (RosettaErrors invalidPublicKey)]"
  by (auto simp: metadata_public_key_check_def Let_def
           split: option.splits list.splits attempt.splits if_splits)

lemma metadata_public_key_check_None_all:
  "metadata_public_key_check e b = None \<longleftrightarrow>
     (\<forall>publicKey rest. md_public_keys b = Some (publicKey # rest) \<longrightarrow>
        (\<exists>stxAddress. derived_address e (stripped_hex_bytes e publicKey) (md_network b)
                           = Some stxAddress
                         \<and> sender_address (md_options b) = Some stxAddress))"
  by (auto simp: metadata_public_key_check_None_iff split: option.splits list.splits)

lemma metadata_unfold:
  "metadata e req =
     (let options = md_options (body req);
          v = rosettaValidateRequest e (originalUrl req) (MetadataBody (body req)) in
      if \<not> valid v then [Json 400 (MakeRosettaError v)]
      else if tx_type options \<noteq> Some ''token_transfer''
        then [Json 400 (RosettaErrors invalidTransactionType)]
      else if \<not> (\<forall>sender. sender_address options = Some sender \<longrightarrow>
                     sender = [] \<or> isValidC32Address e sender)
        then [Json 400 (RosettaErrors invalidSender)]
      else if options_symbol options \<noteq> Some (RosettaConstants_symbol e)
        then [Json 400 (RosettaErrors invalidCurrencySymbol)]
      else if options_decimals options \<noteq> Some (RosettaConstants_decimals e)
        then [Json 400 (RosettaErrors invalidCurrencyDecimals)]
      else if \<not> (\<exists>recipient. token_transfer_recipient_address options = Some recipient
                        \<and> isValidC32Address e recipient)
        then [Json 400 (RosettaErrors invalidRecipient)]
      else if metadata_public_key_check e (body req) \<noteq> None
        then [Json 400 (RosettaErrors invalidPublicKey)]
      else metadata_lookup e (body req) (the (token_transfer_recipient_address options)))"
  by (auto simp: metadata_def Let_def dest: metadata_public_key_check_Some
           split: option.splits)

lemma external_calls_Json_single: "external_calls [Json s b] = []"
  by (simp add: external_calls_def)

lemma responses_Json_single: "responses [Json s b] = [(s, b)]"
  by (simp add: responses_def)

lemma hd_metadata_lookup: "hd (metadata_lookup e b r) = GetAccount r"
  by (simp add: metadata_lookup_def)

text \<open>
  C6.  A metadata request that fails a check gets the error of the first check it fails,
  in the order: transaction type other than \<^verbatim>\<open>token_transfer\<close>, sender address that
  is not a valid address, wrong currency symbol, wrong decimals, missing or invalid
  recipient address, supplied public key whose address cannot be derived or differs from
  the sender.  In each case the error response is all the handler does: neither the
  account service nor the chain-tip lookup is called (the same holds for a request that
  the schema validator rejects).  A request that passes every check starts with the
  account lookup.
\<close>

theorem metadata_errors_precede_lookups:
  "let options = md_options (body req);
       passed = valid (rosettaValidateRequest e (originalUrl req) (MetadataBody (body req)));
       typeOk = (tx_type options = Some ''token_transfer'');
       senderOk = (\<forall>sender. sender_address options = Some sender \<longrightarrow>
                     sender = [] \<or> isValidC32Address e sender);
       symbolOk = (options_symbol options = Some (RosettaConstants_symbol e));
       decimalsOk = (options_decimals options = Some (RosettaConstants_decimals e));
       recipientOk = (\<exists>recipient. token_transfer_recipient_address options = Some recipient
                        \<and> isValidC32Address e recipient);
       keyOk = (\<forall>publicKey rest. md_public_keys (body req) = Some (publicKey # rest) \<longrightarrow>
                  (\<exists>stxAddress.
                     derived_address e (stripped_hex_bytes e publicKey) (md_network (body req))
                       = Some stxAddress
                     \<and> sender_address options = Some stxAddress))
   in (passed \<and> \<not> typeOk \<longrightarrow>
         metadata e req = [Json 400 (RosettaErrors invalidTransactionType)])
    \<and> (passed \<and> typeOk \<and> \<not> senderOk \<longrightarrow>
         metadata e req = [Json 400 (RosettaErrors invalidSender)])
    \<and> (passed \<and> typeOk \<and> senderOk \<and> \<not> symbolOk \<longrightarrow>
         metadata e req = [Json 400 (RosettaErrors invalidCurrencySymbol)])
    \<and> (passed \<and> typeOk \<and> senderOk \<and> symbolOk \<and> \<not> decimalsOk \<longrightarrow>
         metadata e req = [Json 400 (RosettaErrors invalidCurrencyDecimals)])
    \<and> (passed \<and> typeOk \<and> senderOk \<and> symbolOk \<and> decimalsOk \<and> \<not> recipientOk \<longrightarrow>
         metadata e req = [Json 400 (RosettaErrors invalidRecipient)])
    \<and> (passed \<and> typeOk \<and> senderOk \<and> symbolOk \<and> decimalsOk \<and> recipientOk \<and> \<not> keyOk \<longrightarrow>
         metadata e req = [Json 400 (RosettaErrors invalidPublicKey)])
    \<and> (\<not> (passed \<and> typeOk \<and> senderOk \<and> symbolOk \<and> decimalsOk \<and> recipientOk \<and> keyOk) \<longrightarrow>
         external_calls (metadata e req) = [] \<and> length (responses (metadata e req)) = 1)
    \<and> (passed \<and> typeOk \<and> senderOk \<and> symbolOk \<and> decimalsOk \<and> recipientOk \<and> keyOk \<longrightarrow>
         (\<exists>recipient. token_transfer_recipient_address options = Some recipient
            \<and> metadata e req = metadata_lookup e (body req) recipient
            \<and> hd (metadata e req) = GetAccount recipient))"
  unfolding Let_def metadata_public_key_check_None_all [symmetric]
  by (auto simp: metadata_unfold Let_def external_calls_Json_single responses_Json_single
        hd_metadata_lookup)


theorem metadata_errors_precede_lookups_witness:
  "metadata (demo_env demo_unsigned_tx)
      \<lparr> originalUrl = ''/rosetta/v1/construction/metadata'',
        body = \<lparr> md_network = ''testnet'',
                 md_options = demo_options\<lparr>token_transfer_recipient_address := Some ''XYZ''\<rparr>,
                 md_public_keys = None \<rparr> \<rparr>
     = [Json 400 (RosettaErrors invalidRecipient)]
   \<and> external_calls (metadata (demo_env demo_unsigned_tx)
      \<lparr> originalUrl = ''/rosetta/v1/construction/metadata'',
        body = \<lparr> md_network = ''testnet'',
                 md_options = demo_options\<lparr>token_transfer_recipient_address := Some ''XYZ''\<rparr>,
                 md_public_keys = None \<rparr> \<rparr>) = []"
  using metadata_errors_precede_lookups
          [of "\<lparr> originalUrl = ''/rosetta/v1/construction/metadata'',
                 body = \<lparr> md_network = ''testnet'',
                   md_options = demo_options\<lparr>token_transfer_recipient_address := Some ''XYZ''\<rparr>,
                   md_public_keys = None \<rparr> \<rparr>" "demo_env demo_unsigned_tx"]
  by (simp add: Let_def demo_env_def demo_options_def external_calls_Json_single
        responses_Json_single)

text \<open>
  C7.  For a metadata request that supplies at least one public key, with \<open>publicKey\<close>
  the first: the handler answers with status 200 only if an address is derived from that
  key and equals the declared sender address.  Without such a match the handler's only
  action is an error response, and that error is \<^verbatim>\<open>invalidPublicKey\<close> for a request
  that passes the checks made before the key is looked at (validation, transaction type,
  sender, symbol, decimals, recipient).
\<close>

theorem metadata_public_key_must_match_sender:
  assumes k: "md_public_keys (body req) = Some (publicKey # rest)"
  shows
   "let options = md_options (body req);
        derived = derived_address e (stripped_hex_bytes e publicKey) (md_network (body req));
        matches = (\<exists>stxAddress. derived = Some stxAddress
                      \<and> sender_address options = Some stxAddress)
    in ((\<exists>r. Json 200 r \<in> set (metadata e req)) \<longrightarrow> matches)
     \<and> (\<not> matches \<longrightarrow> (\<exists>b. metadata e req = [Json 400 b]))
     \<and> (\<not> matches
          \<and> valid (rosettaValidateRequest e (originalUrl req) (MetadataBody (body req)))
          \<and> tx_type options = Some ''token_transfer''
          \<and> (\<forall>sender. sender_address options = Some sender \<longrightarrow>
                 sender = [] \<or> isValidC32Address e sender)
          \<and> options_symbol options = Some (RosettaConstants_symbol e)
          \<and> options_decimals options = Some (RosettaConstants_decimals e)
          \<and> (\<exists>recipient. token_transfer_recipient_address options = Some recipient
                 \<and> isValidC32Address e recipient)
          \<longrightarrow> metadata e req = [Json 400 (RosettaErrors invalidPublicKey)])"
proof -
  have c: "metadata_public_key_check e (body req) = None \<longleftrightarrow>
      (\<exists>stxAddress.
          derived_address e (stripped_hex_bytes e publicKey) (md_network (body req))
            = Some stxAddress
          \<and> sender_address (md_options (body req)) = Some stxAddress)"
    using k by (simp add: metadata_public_key_check_None_iff)
  show ?thesis
    unfolding Let_def c [symmetric]
    by (auto simp: metadata_unfold Let_def)
qed

theorem metadata_public_key_must_match_sender_witness:
  "metadata (demo_env demo_unsigned_tx)
      \<lparr> originalUrl = ''/rosetta/v1/construction/metadata'',
        body = \<lparr> md_network = ''testnet'', md_options = demo_options,
                 md_public_keys = Some [\<lparr> hex_bytes = ''0x022OTHER'',
                                          curve_type = ''secp256k1'' \<rparr>] \<rparr> \<rparr>
     = [Json 400 (RosettaErrors invalidPublicKey)]"
  using metadata_public_key_must_match_sender
          [of "\<lparr> originalUrl = ''/rosetta/v1/construction/metadata'',
                 body = \<lparr> md_network = ''testnet'', md_options = demo_options,
                   md_public_keys = Some [\<lparr> hex_bytes = ''0x022OTHER'',
                                            curve_type = ''secp256k1'' \<rparr>] \<rparr> \<rparr>"
              "\<lparr> hex_bytes = ''0x022OTHER'', curve_type = ''secp256k1'' \<rparr>" "[]"
              "demo_env demo_unsigned_tx"]
  by (simp add: Let_def demo_env_def demo_options_def derived_address_def
        stripped_hex_bytes_def)

section \<open>Properties of the preprocess endpoint\<close>

lemma preprocess_unfold:
  assumes v: "valid (rosettaValidateRequest e (originalUrl req) (PreprocessBody (body req)))"
  shows "preprocess e req =
     (let operations = pre_operations (body req) in
      if length operations \<noteq> 3 then [Json 400 (RosettaErrors invalidOperation)]
      else if \<not> isSymbolSupported e operations
        then [Json 400 (RosettaErrors invalidCurrencySymbol)]
      else if \<not> isDecimalsSupported e operations
        then [Json 400 (RosettaErrors invalidCurrencyDecimals)]
      else if getOptionsFromOperations e operations = None
        then [Json 400 (RosettaErrors invalidOperation)]
      else
        (let options = preprocess_overrides (body req)
                         (the (getOptionsFromOperations e operations)) in
         case pre_max_fee (body req) of
           None \<Rightarrow> preprocess_response options
         | Some [] \<Rightarrow> [Threw]
         | Some (mf # rest) \<Rightarrow>
             if symbol (max_fee_currency mf) = RosettaConstants_symbol e
                \<and> decimals (max_fee_currency mf) = RosettaConstants_decimals e
             then preprocess_response (options\<lparr>max_fee := Some (max_fee_value mf)\<rparr>)
             else [Json 400 (RosettaErrors invalidFee)]))"
  using v
  by (cases "getOptionsFromOperations e (pre_operations (body req))")
     (simp_all add: preprocess_def Let_def)

text \<open>
  C2 (as amended).  For a preprocess request that passes the schema validation, the checks
  run in the fixed order: number of operations (any number other than three gives
  \<^verbatim>\<open>invalidOperation\<close>), currency symbol (\<^verbatim>\<open>invalidCurrencySymbol\<close>), currency
  decimals (\<^verbatim>\<open>invalidCurrencyDecimals\<close>), extraction of the options from the
  operations (\<^verbatim>\<open>invalidOperation\<close> when \<^verbatim>\<open>getOptionsFromOperations\<close> yields none),
  and last the currency of the first entry of a supplied \<^verbatim>\<open>max_fee\<close>
  (\<^verbatim>\<open>invalidFee\<close>).  The first check that fails determines the single error response,
  which is all the handler does; a request that passes them all (with a \<^verbatim>\<open>max_fee\<close>
  that is absent or non-empty) gets the options with status 200.
\<close>

theorem preprocess_check_order:
  assumes v: "valid (rosettaValidateRequest e (originalUrl req) (PreprocessBody (body req)))"
  shows
   "let operations = pre_operations (body req);
        countOk = (length operations = 3);
        symbolOk = isSymbolSupported e operations;
        decimalsOk = isDecimalsSupported e operations;
        optionsOk = (getOptionsFromOperations e operations \<noteq> None);
        feeOk = (\<forall>mf rest. pre_max_fee (body req) = Some (mf # rest) \<longrightarrow>
                   symbol (max_fee_currency mf) = RosettaConstants_symbol e
                   \<and> decimals (max_fee_currency mf) = RosettaConstants_decimals e)
    in (\<not> countOk \<longrightarrow> preprocess e req = [Json 400 (RosettaErrors invalidOperation)])
     \<and> (countOk \<and> \<not> symbolOk \<longrightarrow>
          preprocess e req = [Json 400 (RosettaErrors invalidCurrencySymbol)])
     \<and> (countOk \<and> symbolOk \<and> \<not> decimalsOk \<longrightarrow>
          preprocess e req = [Json 400 (RosettaErrors invalidCurrencyDecimals)])
     \<and> (countOk \<and> symbolOk \<and> decimalsOk \<and> \<not> optionsOk \<longrightarrow>
          preprocess e req = [Json 400 (RosettaErrors invalidOperation)])
     \<and> (countOk \<and> symbolOk \<and> decimalsOk \<and> optionsOk \<and> \<not> feeOk \<longrightarrow>
          preprocess e req = [Json 400 (RosettaErrors invalidFee)])
     \<and> (countOk \<and> symbolOk \<and> decimalsOk \<and> optionsOk \<and> feeOk
          \<and> pre_max_fee (body req) \<noteq> Some [] \<longrightarrow>
          (\<exists>options. preprocess e req
             = [Json 200 (PreprocessResponse options (sender_address options))]))"
  unfolding Let_def preprocess_unfold [OF v]
  by (auto simp: Let_def preprocess_response_def split: option.splits list.splits)


theorem preprocess_check_order_witness:
  "preprocess (demo_env demo_unsigned_tx)
     (demo_preprocess_request demo_operations None (Some [wrong_max_fee]))
   = [Json 400 (RosettaErrors invalidFee)]"
proof -
  let ?e = "demo_env demo_unsigned_tx"
  let ?req = "demo_preprocess_request demo_operations None (Some [wrong_max_fee])"
  have v: "valid (rosettaValidateRequest ?e (originalUrl ?req) (PreprocessBody (body ?req)))"
    by (simp add: demo_env_def)
  show ?thesis
    using preprocess_check_order [OF v]
    by (simp add: Let_def demo_env_def demo_preprocess_request_def demo_operations_def
          demo_operation_def demo_currency_def wrong_max_fee_def
          demo_getOptionsFromOperations_def)
qed

text \<open>
  The claim C2 as stated has the fee check directly after the decimals check.  Here is a
  valid request with three operations in the native currency and a fee ceiling in another
  currency: the first three checks pass and the fee check would fail, but the answer is
  \<^verbatim>\<open>invalidOperation\<close>, not \<^verbatim>\<open>invalidFee\<close>, because no options can be extracted
  from the operations and that is checked before the fee.
\<close>

theorem preprocess_check_order_counterexample:
  "valid (rosettaValidateRequest (demo_env demo_unsigned_tx)
            (originalUrl (demo_preprocess_request unsupported_operations None
                            (Some [wrong_max_fee])))
            (PreprocessBody (body (demo_preprocess_request unsupported_operations None
                                     (Some [wrong_max_fee])))))
   \<and> length unsupported_operations = 3
   \<and> isSymbolSupported (demo_env demo_unsigned_tx) unsupported_operations
   \<and> isDecimalsSupported (demo_env demo_unsigned_tx) unsupported_operations
   \<and> symbol (max_fee_currency wrong_max_fee)
         \<noteq> RosettaConstants_symbol (demo_env demo_unsigned_tx)
   \<and> preprocess (demo_env demo_unsigned_tx)
         (demo_preprocess_request unsupported_operations None (Some [wrong_max_fee]))
       \<noteq> [Json 400 (RosettaErrors invalidFee)]
   \<and> preprocess (demo_env demo_unsigned_tx)
         (demo_preprocess_request unsupported_operations None (Some [wrong_max_fee]))
       = [Json 400 (RosettaErrors invalidOperation)]"
  by (simp add: preprocess_def Let_def demo_env_def demo_preprocess_request_def
        unsupported_operations_def demo_operation_def demo_currency_def wrong_max_fee_def
        demo_getOptionsFromOperations_def)

text \<open>
  C8 (as amended).  For a preprocess request that passes every check and has a metadata
  object \<open>m\<close>: the returned options carry the metadata's \<^verbatim>\<open>gas_limit\<close> and
  \<^verbatim>\<open>gas_price\<close> when these are supplied and not zero, and their
  \<^verbatim>\<open>suggested_fee_multiplier\<close> is the one of the request body itself, when that is
  supplied and not zero (otherwise each field is as extracted from the operations).  The
  multiplier is a field of the request, like \<^verbatim>\<open>max_fee\<close>; a field
  \<^verbatim>\<open>suggested_fee_multiplier\<close> inside the metadata object is not read.
\<close>

theorem preprocess_suggested_fee_multiplier_source:
  assumes v: "valid (rosettaValidateRequest e (originalUrl req) (PreprocessBody (body req)))"
    and n: "length (pre_operations (body req)) = 3"
    and sy: "isSymbolSupported e (pre_operations (body req))"
    and de: "isDecimalsSupported e (pre_operations (body req))"
    and o: "getOptionsFromOperations e (pre_operations (body req)) = Some options0"
    and mf: "pre_max_fee (body req) = None
             \<or> (\<exists>mf rest. pre_max_fee (body req) = Some (mf # rest)
                   \<and> symbol (max_fee_currency mf) = RosettaConstants_symbol e
                   \<and> decimals (max_fee_currency mf) = RosettaConstants_decimals e)"
    and md: "pre_metadata (body req) = Some m"
  shows "\<exists>options.
           preprocess e req = [Json 200 (PreprocessResponse options (sender_address options0))]
         \<and> gas_limit options =
               (if truthy_num (metadata_gas_limit m) then metadata_gas_limit m
                else gas_limit options0)
         \<and> gas_price options =
               (if truthy_num (metadata_gas_price m) then metadata_gas_price m
                else gas_price options0)
         \<and> suggested_fee_multiplier options =
               (if truthy_num (pre_suggested_fee_multiplier (body req))
                then pre_suggested_fee_multiplier (body req)
                else suggested_fee_multiplier options0)"
  using n sy de o mf md
  by (auto simp: preprocess_unfold [OF v] Let_def preprocess_response_def
        preprocess_overrides_def)

theorem preprocess_suggested_fee_multiplier_source_witness:
  "preprocess (demo_env demo_unsigned_tx) demo_preprocess_request_multipliers
     = [Json 200 (PreprocessResponse
                    (demo_options\<lparr>gas_limit := Some 5, suggested_fee_multiplier := Some 3\<rparr>)
                    (Some ''ST1SENDER''))]"
proof -
  let ?e = "demo_env demo_unsigned_tx"
  let ?m = "\<lparr> metadata_gas_limit = Some 5, metadata_gas_price = None,
               metadata_suggested_fee_multiplier = Some 2 \<rparr>"
  let ?req = "demo_preprocess_request_multipliers"
  have v: "valid (rosettaValidateRequest ?e (originalUrl ?req) (PreprocessBody (body ?req)))"
    by (simp add: demo_env_def)
  have n: "length (pre_operations (body ?req)) = 3"
    by (simp add: demo_preprocess_request_multipliers_def demo_operations_def)
  have sy: "isSymbolSupported ?e (pre_operations (body ?req))"
    by (simp add: demo_env_def demo_preprocess_request_multipliers_def demo_operations_def
          demo_operation_def demo_currency_def)
  have de: "isDecimalsSupported ?e (pre_operations (body ?req))"
    by (simp add: demo_env_def demo_preprocess_request_multipliers_def demo_operations_def
          demo_operation_def demo_currency_def)
  have o: "getOptionsFromOperations ?e (pre_operations (body ?req)) = Some demo_options"
    by (simp add: demo_env_def demo_preprocess_request_multipliers_def demo_operations_def
          demo_operation_def demo_getOptionsFromOperations_def)
  have mf: "pre_max_fee (body ?req) = None
             \<or> (\<exists>mf rest. pre_max_fee (body ?req) = Some (mf # rest)
                   \<and> symbol (max_fee_currency mf) = RosettaConstants_symbol ?e
                   \<and> decimals (max_fee_currency mf) = RosettaConstants_decimals ?e)"
    by (simp add: demo_preprocess_request_multipliers_def)
  have md: "pre_metadata (body ?req) = Some ?m"
    by (simp add: demo_preprocess_request_multipliers_def)
  obtain options where
    r: "preprocess ?e ?req
          = [Json 200 (PreprocessResponse options (sender_address demo_options))]"
    and s: "suggested_fee_multiplier options =
              (if truthy_num (pre_suggested_fee_multiplier (body ?req))
               then pre_suggested_fee_multiplier (body ?req)
               else suggested_fee_multiplier demo_options)"
    using preprocess_suggested_fee_multiplier_source [OF v n sy de o mf md] by blast
  have s3: "suggested_fee_multiplier options = Some 3"
    using s by (simp add: demo_preprocess_request_multipliers_def truthy_num_def)
  have "preprocess ?e ?req
          = [Json 200 (PreprocessResponse
               (demo_options\<lparr>gas_limit := Some 5,
                              suggested_fee_multiplier := suggested_fee_multiplier options\<rparr>)
               (Some ''ST1SENDER''))]"
    unfolding s3
    by (simp add: preprocess_def Let_def demo_env_def demo_preprocess_request_multipliers_def
          demo_operations_def demo_operation_def demo_currency_def
          demo_getOptionsFromOperations_def preprocess_overrides_def truthy_num_def
          preprocess_response_def demo_options_def)
  then show ?thesis using s3 by simp
qed


text \<open>
  The claim C8 as stated has the metadata's multiplier in the returned options.  Here is a
  request that passes every check and whose metadata supplies the multiplier 2 (and the
  gas limit 5): the returned options carry the gas limit and no multiplier.
\<close>

theorem preprocess_suggested_fee_multiplier_counterexample:
  "pre_metadata (body (demo_preprocess_request demo_operations
         (Some \<lparr> metadata_gas_limit = Some 5, metadata_gas_price = None,
                  metadata_suggested_fee_multiplier = Some 2 \<rparr>) None))
      = Some \<lparr> metadata_gas_limit = Some 5, metadata_gas_price = None,
               metadata_suggested_fee_multiplier = Some 2 \<rparr>
   \<and> preprocess (demo_env demo_unsigned_tx)
        (demo_preprocess_request demo_operations
           (Some \<lparr> metadata_gas_limit = Some 5, metadata_gas_price = None,
                    metadata_suggested_fee_multiplier = Some 2 \<rparr>) None)
      = [Json 200 (PreprocessResponse (demo_options\<lparr>gas_limit := Some 5\<rparr>)
                     (Some ''ST1SENDER''))]
   \<and> suggested_fee_multiplier (demo_options\<lparr>gas_limit := Some 5\<rparr>) \<noteq> Some 2"
  by (simp add: preprocess_def Let_def demo_env_def demo_preprocess_request_def
        demo_operations_def demo_operation_def demo_currency_def
        demo_getOptionsFromOperations_def preprocess_overrides_def truthy_num_def
        preprocess_response_def demo_options_def)

section \<open>Properties of the payloads endpoint\<close>

lemma payloads_reaches_checked:
  assumes "valid (rosettaValidateRequest e (originalUrl req) (PayloadsBody (body req)))"
    and "getOptionsFromOperations e (pl_operations (body req)) = Some options"
    and "amount options = Some amount'" and "amount' \<noteq> []"
    and "fee options = Some fees" and "fees \<noteq> []"
    and "pl_public_keys (body req) = Some publicKeys"
    and "token_transfer_recipient_address options = Some recipientAddress"
    and "recipientAddress \<noteq> []"
    and "sender_address options = Some senderAddress" and "senderAddress \<noteq> []"
  shows "payloads e req =
           payloads_checked e amount' fees recipientAddress senderAddress publicKeys"
  using assms by (simp add: payloads_def Let_def)

text \<open>
  C4 (as amended).  For a payloads request that passes the schema validation and the checks
  of amount, fee, recipient and sender, and supplies a list of public keys, the handler
  first looks up the sender's account.  When the lookup returns, a list whose length is
  not exactly one is answered with \<^verbatim>\<open>needOnePublicKey\<close>, and a single key whose curve
  type is not \<^verbatim>\<open>secp256k1\<close> with \<^verbatim>\<open>invalidCurveType\<close>, and nothing else happens;
  when the lookup throws, the handler ends with that exception and answers neither.  An
  unsigned transfer is built only for a single key of curve type \<^verbatim>\<open>secp256k1\<close>, after
  the lookup has returned.
\<close>

theorem payloads_public_key_checks:
  assumes v: "valid (rosettaValidateRequest e (originalUrl req) (PayloadsBody (body req)))"
    and o: "getOptionsFromOperations e (pl_operations (body req)) = Some options"
    and a: "amount options = Some amount'" "amount' \<noteq> []"
    and f: "fee options = Some fees" "fees \<noteq> []"
    and r: "token_transfer_recipient_address options = Some recipientAddress"
           "recipientAddress \<noteq> []"
    and s: "sender_address options = Some senderAddress" "senderAddress \<noteq> []"
    and k: "pl_public_keys (body req) = Some publicKeys"
  shows
    "(length publicKeys \<noteq> 1 \<longrightarrow>
        payloads e req
          = GetAccount senderAddress #
            (case getAccount e senderAddress of
               Throws \<Rightarrow> [Threw]
             | Returns accountInfo \<Rightarrow> [Json 400 (RosettaErrors needOnePublicKey)]))
   \<and> (\<forall>publicKey. publicKeys = [publicKey] \<and> curve_type publicKey \<noteq> ''secp256k1'' \<longrightarrow>
        payloads e req
          = GetAccount senderAddress #
            (case getAccount e senderAddress of
               Throws \<Rightarrow> [Threw]
             | Returns accountInfo \<Rightarrow> [Json 400 (RosettaErrors invalidCurveType)]))
   \<and> ((\<exists>opts. MakeUnsignedSTXTokenTransfer opts \<in> set (payloads e req)) \<longrightarrow>
        (\<exists>publicKey accountInfo. publicKeys = [publicKey]
            \<and> curve_type publicKey = ''secp256k1''
            \<and> getAccount e senderAddress = Returns accountInfo))
   \<and> hd (payloads e req) = GetAccount senderAddress"
proof -
  have p: "payloads e req =
             payloads_checked e amount' fees recipientAddress senderAddress publicKeys"
    using payloads_reaches_checked [OF v o a f k r s] .
  show ?thesis
    unfolding p
    by (auto simp: payloads_checked_def split: list.splits attempt.splits)
qed

theorem payloads_public_key_checks_witness:
  "payloads (demo_env demo_unsigned_tx) demo_payloads_request_two_keys
   = [GetAccount ''ST1SENDER'', Json 400 (RosettaErrors needOnePublicKey)]"
proof -
  let ?e = "demo_env demo_unsigned_tx"
  let ?req = "demo_payloads_request_two_keys"
  have v: "valid (rosettaValidateRequest ?e (originalUrl ?req) (PayloadsBody (body ?req)))"
    by (simp add: demo_env_def)
  have o: "getOptionsFromOperations ?e (pl_operations (body ?req)) = Some demo_options"
    by (simp add: demo_env_def demo_getOptionsFromOperations_def demo_operations_def
          demo_operation_def demo_payloads_request_two_keys_def)
  have k: "pl_public_keys (body ?req)
             = Some [\<lparr> hex_bytes = ''021SENDER'', curve_type = ''secp256k1'' \<rparr>,
                     \<lparr> hex_bytes = ''022OTHER'', curve_type = ''secp256k1'' \<rparr>]"
    by (simp add: demo_payloads_request_two_keys_def)
  have g: "getAccount ?e ''ST1SENDER'' = Returns \<lparr> account_nonce = 7 \<rparr>"
    by (simp add: demo_env_def)
  show ?thesis
    using payloads_public_key_checks [where e = ?e and req = ?req and options = demo_options
        and amount' = "''100''" and fees = "''180''" and recipientAddress = "''ST2RECIPIENT''"
        and senderAddress = "''ST1SENDER''", OF v o _ _ _ _ _ _ _ _ k] g
    by (simp add: demo_options_def)
qed

text \<open>
  The claim C4 as stated has \<^verbatim>\<open>needOnePublicKey\<close> for every request that passes the
  checks of amount, fee, recipient and sender and supplies a number of keys other than one.
  Here is such a request, with two keys, in an environment where the account lookup
  throws: the handler makes the lookup and ends with the exception, without a response.
\<close>

theorem payloads_public_key_checks_counterexample:
  "valid (rosettaValidateRequest (demo_env_node_down demo_unsigned_tx)
            (originalUrl demo_payloads_request_two_keys)
            (PayloadsBody (body demo_payloads_request_two_keys)))
   \<and> getOptionsFromOperations (demo_env_node_down demo_unsigned_tx)
         (pl_operations (body demo_payloads_request_two_keys)) = Some demo_options
   \<and> truthy_str (amount demo_options) \<and> truthy_str (fee demo_options)
   \<and> truthy_str (token_transfer_recipient_address demo_options)
   \<and> truthy_str (sender_address demo_options)
   \<and> map_option length (pl_public_keys (body demo_payloads_request_two_keys)) = Some 2
   \<and> payloads (demo_env_node_down demo_unsigned_tx) demo_payloads_request_two_keys
       = [GetAccount ''ST1SENDER'', Threw]
   \<and> responses (payloads (demo_env_node_down demo_unsigned_tx)
                   demo_payloads_request_two_keys) = []"
  by (simp add: payloads_def payloads_checked_def Let_def demo_env_node_down_def demo_env_def
        demo_payloads_request_two_keys_def demo_getOptionsFromOperations_def
        demo_operations_def demo_operation_def demo_options_def truthy_str_def responses_def)

section \<open>Properties of the combine endpoint\<close>

lemma combine_reaches_first_signature:
  assumes "valid (rosettaValidateRequest e (originalUrl req) (CombineBody (body req)))"
    and "signatures (body req) = sig0 # rest"
    and "hexToBuffer e (with0xPrefix e (unsigned_transaction (body req))) = Returns buffer"
    and "deserializeTransaction e buffer = Returns transaction"
  shows "combine e req =
           combine_first_signature e transaction sig0
             (if rest = [] then [] else [Json 400 (RosettaErrors needOnlyOneSignature)])"
  using assms by (simp add: combine_def Let_def res_json_def headersSent_def)

text \<open>
  C1 (what the code does).  Take a combine request that passes the schema validation, has
  at least one signature, and whose transaction deserializes, with a first signature of
  curve type \<^verbatim>\<open>secp256k1\<close>, a presign hash, and hex bytes from which a message
  signature is made.
  \<^item> With exactly one signature whose verification fails, the handler responds
    \<^verbatim>\<open>signatureNotVerified\<close> and goes on: it writes the new signature into a
    single-signature spending condition and serializes the transaction; its second
    response, with the signed transaction, is refused by the response object, and the
    handler ends with that exception.
  \<^item> With more than one signature the handler responds \<^verbatim>\<open>needOnlyOneSignature\<close> and
    goes on with the first signature: when the verification fails, the response
    \<^verbatim>\<open>signatureNotVerified\<close> is refused and the handler ends with the exception; when
    it succeeds, the signature is written, the transaction serialized, and the last
    response is refused.
  \<^item> With exactly one signature that verifies, the signature is written, the transaction
    serialized and the signed transaction returned with status 200.
  So one response is sent in each case, but an error response is not the end of the
  handler: after a failed verification of a single signature the signature is spliced into
  the spending condition all the same.
\<close>

theorem combine_goes_on_after_error_response:
  assumes v: "valid (rosettaValidateRequest e (originalUrl req) (CombineBody (body req)))"
    and s: "signatures (body req) = sig0 # rest"
    and b: "hexToBuffer e (with0xPrefix e (unsigned_transaction (body req))) = Returns buffer"
    and d: "deserializeTransaction e buffer = Returns transaction"
    and c: "curve_type (public_key sig0) = ''secp256k1''"
    and p: "makePresignHash e transaction = Some preSignHash" "preSignHash \<noteq> []"
    and m: "createMessageSignature e (combine_hash (signature_hex_bytes sig0))
              = Returns newSignature"
  shows
    "(let verified =
            verifySignature e
              (if has0xPrefix e (hex_bytes (public_key sig0))
               then js_replace (signing_payload_hex_bytes sig0) ''0x'' []
               else signing_payload_hex_bytes sig0)
              (hex_bytes (public_key sig0)) newSignature;
          spliced = combine_set_signature transaction newSignature
      in combine e req =
           (if rest = [] then
              (if verified
               then [Serialize spliced,
                     Json 200 (CombineResponse
                                 (''0x'' @ toString_hex e (serialize e spliced)))]
               else [Json 400 (RosettaErrors signatureNotVerified), Serialize spliced, Threw])
            else
              (if verified
               then [Json 400 (RosettaErrors needOnlyOneSignature), Serialize spliced, Threw]
               else [Json 400 (RosettaErrors needOnlyOneSignature), Threw])))
     \<and> (\<forall>sc. spendingCondition transaction = Some (SingleSig sc) \<longrightarrow>
           combine_set_signature transaction newSignature
             = transaction\<lparr>spendingCondition :=
                             Some (SingleSig (sc\<lparr>signature := newSignature\<rparr>))\<rparr>)"
  unfolding combine_reaches_first_signature [OF v s b d]
  using c p m
  by (simp add: combine_first_signature_def truthy_str_def Let_def combine_set_signature_def
        res_json_def headersSent_def threw_def)

theorem combine_goes_on_after_error_response_witness:
  "combine (demo_env demo_unsigned_tx)
     \<lparr> originalUrl = ''/rosetta/v1/construction/combine'',
       body = \<lparr> unsigned_transaction = ''80800000'',
                signatures =
                  [\<lparr> signing_payload_hex_bytes = ''c0ffee'',
                     public_key = \<lparr> hex_bytes = ''021SENDER'', curve_type = ''secp256k1'' \<rparr>,
                     signature_hex_bytes = replicate 130 (CHR ''9'') \<rparr>] \<rparr> \<rparr>
   = [Json 400 (RosettaErrors signatureNotVerified),
      Serialize
        \<lparr> spendingCondition =
            Some (SingleSig \<lparr> signer = ''ST1SENDER'', nonce = 7, sc_fee = 180,
                              signature = \<lparr> data = Some (replicate 130 (CHR ''9'')) \<rparr> \<rparr>),
          payload = ''c0ffee'' \<rparr>,
      Threw]"
proof -
  let ?e = "demo_env demo_unsigned_tx"
  let ?sig = "\<lparr> signing_payload_hex_bytes = ''c0ffee'',
                 public_key = \<lparr> hex_bytes = ''021SENDER'', curve_type = ''secp256k1'' \<rparr>,
                 signature_hex_bytes = replicate 130 (CHR ''9'') \<rparr>"
  let ?req = "\<lparr> originalUrl = ''/rosetta/v1/construction/combine'',
                 body = \<lparr> unsigned_transaction = ''80800000'', signatures = [?sig] \<rparr> \<rparr>"
  let ?new = "\<lparr> data = Some (replicate 130 (CHR ''9'')) \<rparr>"
  have v: "valid (rosettaValidateRequest ?e (originalUrl ?req) (CombineBody (body ?req)))"
    by (simp add: demo_env_def)
  have s: "signatures (body ?req) = ?sig # []" by simp
  have b: "hexToBuffer ?e (with0xPrefix ?e (unsigned_transaction (body ?req))) = Returns [8]"
    by (simp add: demo_env_def with0xPrefix_def)
  have d: "deserializeTransaction ?e [8] = Returns demo_unsigned_tx"
    by (simp add: demo_env_def)
  have c: "curve_type (public_key ?sig) = ''secp256k1''" by simp
  have p: "makePresignHash ?e demo_unsigned_tx = Some ''c0ffee''" "''c0ffee'' \<noteq> []"
    by (simp_all add: demo_env_def demo_unsigned_tx_def)
  have h: "combine_hash (signature_hex_bytes ?sig) = replicate 130 (CHR ''9'')"
    by (simp add: combine_hash_eq)
  have m: "createMessageSignature ?e (combine_hash (signature_hex_bytes ?sig)) = Returns ?new"
    unfolding h by (simp add: demo_env_def)
  have nv: "\<not> verifySignature ?e
               (if has0xPrefix ?e (hex_bytes (public_key ?sig))
                then js_replace (signing_payload_hex_bytes ?sig) ''0x'' []
                else signing_payload_hex_bytes ?sig)
               (hex_bytes (public_key ?sig)) ?new"
    by (simp add: demo_env_def)
  have sp: "combine_set_signature demo_unsigned_tx ?new
              = \<lparr> spendingCondition =
                    Some (SingleSig \<lparr> signer = ''ST1SENDER'', nonce = 7, sc_fee = 180,
                                      signature = ?new \<rparr>),
                  payload = ''c0ffee'' \<rparr>"
    by (simp add: combine_set_signature_def demo_unsigned_tx_def)
  show ?thesis
    using combine_goes_on_after_error_response [OF v s b d c p m] nv sp
    by (simp add: Let_def)
qed

end
